theory Spec2Isabelle
  imports Complex_Main "HOL-Library.Log_Nat"
begin

section \<open>Python values used by the backend\<close>

text \<open>
  The backend is Python. Its strings are modelled as \<open>string\<close>, one \<open>char\<close> per code point
  below 256 (Kubernetes quantity strings are ASCII); its unbounded integers as \<open>int\<close>; its
  floats as the rational they denote, or an infinity, or NaN. Every exception the code can raise
  is a value of \<open>exn\<close>, and a computation that may raise returns \<open>exn + 'a\<close>.
\<close>

datatype http_detail =
    Not_configured
  | Unauthorized
  | Insufficient_resources
  | Database_error
  | Not_in_mongodb
  | Missing_cpu_memory
  | Pod_exists string
  | Unreachable_saved_pending
  | K8s_error
  | Name_required
  | Pf_failed int

datatype exn =
    ValueError
  | OverflowError
  | ZeroDivisionError
  | KeyError
  | TypeError
  | RuntimeError string
  | ApiException nat
  | ProcessLookupError
  | OtherError string
  | HTTPException nat http_detail

definition bind_exn :: "exn + 'a \<Rightarrow> ('a \<Rightarrow> exn + 'b) \<Rightarrow> exn + 'b" where
  "bind_exn m f = (case m of Inl e \<Rightarrow> Inl e | Inr x \<Rightarrow> f x)"

datatype pyfloat = Finite rat | PosInf | NegInf | NaN

subsection \<open>Rounding to the nearest double\<close>

text \<open>
  \<open>float(str)\<close>, float multiplication and \<open>int / int\<close> are correctly rounded in CPython:
  the result is the double nearest to the exact value, ties to the even significand, and an
  infinity beyond the largest double. \<open>round_double\<close> computes that on rationals
  (53-bit significand, least exponent \<open>-1074\<close>). The sign of a zero is not kept: nothing
  in the backend reads it.
\<close>

definition pow2 :: "int \<Rightarrow> rat" where
  "pow2 k = (if 0 \<le> k then 2 ^ nat k else 1 / 2 ^ nat (- k))"

definition pow10 :: "int \<Rightarrow> rat" where
  "pow10 k = (if 0 \<le> k then 10 ^ nat k else 1 / 10 ^ nat (- k))"

definition round_half_even :: "rat \<Rightarrow> int" where
  "round_half_even q =
     (let f = \<lfloor>q\<rfloor>; d = q - of_int f
      in if d < 1 / 2 then f else if 1 / 2 < d then f + 1 else if even f then f else f + 1)"

definition ilog2 :: "rat \<Rightarrow> int" where
  "ilog2 a =
     (let k = bitlen (fst (quotient_of a)) - bitlen (snd (quotient_of a))
      in if pow2 k \<le> a then k else k - 1)"

definition round_double :: "rat \<Rightarrow> pyfloat" where
  "round_double q =
     (if q = 0 then Finite 0
      else let a = \<bar>q\<bar>;
               p = max (ilog2 a - 52) (- 1074);
               r = of_int (round_half_even (a / pow2 p)) * pow2 p
           in if pow2 1024 \<le> r then (if q < 0 then NegInf else PosInf)
              else Finite (if q < 0 then - r else r))"

text \<open>\<open>x * 1000\<close> on a float, \<open>int(x)\<close> of a float, and \<open>a / b\<close> on two ints.\<close>

definition float_mul_int :: "pyfloat \<Rightarrow> int \<Rightarrow> pyfloat" where
  "float_mul_int x n =
     (case x of
        Finite q \<Rightarrow> round_double (q * of_int n)
      | PosInf \<Rightarrow> (if n = 0 then NaN else if 0 < n then PosInf else NegInf)
      | NegInf \<Rightarrow> (if n = 0 then NaN else if 0 < n then NegInf else PosInf)
      | NaN \<Rightarrow> NaN)"

definition trunc_rat :: "rat \<Rightarrow> int" where
  "trunc_rat q = (if 0 \<le> q then \<lfloor>q\<rfloor> else - \<lfloor>- q\<rfloor>)"

definition int_of_float :: "pyfloat \<Rightarrow> exn + int" where
  "int_of_float x =
     (case x of
        Finite q \<Rightarrow> Inr (trunc_rat q)
      | PosInf \<Rightarrow> Inl OverflowError
      | NegInf \<Rightarrow> Inl OverflowError
      | NaN \<Rightarrow> Inl ValueError)"

definition int_truediv :: "int \<Rightarrow> int \<Rightarrow> exn + pyfloat" where
  "int_truediv a b =
     (if b = 0 then Inl ZeroDivisionError
      else case round_double (of_int a / of_int b) of
             Finite q \<Rightarrow> Inr (Finite q)
           | _ \<Rightarrow> Inl OverflowError)"

subsection \<open>Strings\<close>

definition endswith :: "string \<Rightarrow> string \<Rightarrow> bool" where
  "endswith s suf = (length suf \<le> length s \<and> drop (length s - length suf) s = suf)"

text \<open>\<open>s[:-k]\<close>.\<close>

definition drop_last :: "nat \<Rightarrow> string \<Rightarrow> string" where
  "drop_last k s = take (length s - k) s"

text \<open>
  \<open>str.strip()\<close> removes Unicode whitespace; \<open>int()\<close> and \<open>float()\<close> first rewrite a
  string that holds a non-ASCII code point (whitespace to a blank, anything else that is not a
  decimal digit to \<open>?\<close>, where the rewriting stops) and then skip the ASCII whitespace only.
\<close>

definition is_unicode_space :: "char \<Rightarrow> bool" where
  "is_unicode_space c =
     (let n = (of_char c :: nat)
      in (9 \<le> n \<and> n \<le> 13) \<or> (28 \<le> n \<and> n \<le> 32) \<or> n = 133 \<or> n = 160)"

definition is_ascii_space :: "char \<Rightarrow> bool" where
  "is_ascii_space c = (let n = (of_char c :: nat) in (9 \<le> n \<and> n \<le> 13) \<or> n = 32)"

definition is_digit :: "char \<Rightarrow> bool" where
  "is_digit c = (let n = (of_char c :: nat) in 48 \<le> n \<and> n \<le> 57)"

definition digit_val :: "char \<Rightarrow> int" where
  "digit_val c = int (of_char c) - 48"

definition strip_with :: "(char \<Rightarrow> bool) \<Rightarrow> string \<Rightarrow> string" where
  "strip_with ws s = rev (dropWhile ws (rev (dropWhile ws s)))"

definition strip :: "string \<Rightarrow> string" where
  "strip s = strip_with is_unicode_space s"

fun transform_ascii :: "string \<Rightarrow> string" where
  "transform_ascii [] = []"
| "transform_ascii (c # cs) =
     (if (of_char c :: nat) < 127 then c # transform_ascii cs
      else if is_unicode_space c then CHR '' '' # transform_ascii cs
      else [CHR ''?''])"

definition to_ascii :: "string \<Rightarrow> string" where
  "to_ascii s = (if list_all (\<lambda>c. (of_char c :: nat) < 128) s then s else transform_ascii s)"

text \<open>
  Underscores in a numeric literal: one at a time, and only between two digits. The result is
  the literal without them, or \<open>None\<close> for a misplaced underscore.
\<close>

fun drop_underscores :: "char \<Rightarrow> string \<Rightarrow> string option" where
  "drop_underscores prev [] = (if prev = CHR ''_'' then None else Some [])"
| "drop_underscores prev (c # cs) =
     (if c = CHR ''_'' then (if is_digit prev then drop_underscores c cs else None)
      else if prev = CHR ''_'' \<and> \<not> is_digit c then None
      else map_option ((#) c) (drop_underscores c cs))"

definition digits_value :: "string \<Rightarrow> int" where
  "digits_value ds = foldl (\<lambda>a c. 10 * a + digit_val c) 0 ds"

text \<open>A sign, as \<open>int()\<close> and \<open>float()\<close> read it: at most one \<open>+\<close> or \<open>-\<close>.\<close>

definition split_sign :: "string \<Rightarrow> bool \<times> string" where
  "split_sign s =
     (case s of
        [] \<Rightarrow> (False, [])
      | c # cs \<Rightarrow> if c = CHR ''-'' then (True, cs) else if c = CHR ''+'' then (False, cs) else (False, s))"

subsection \<open>\<open>int(str)\<close>\<close>

text \<open>
  Base 10: optional whitespace, an optional sign, digits with single underscores between them,
  optional whitespace. More than 4300 digits are refused (the interpreter's default limit on
  integer string conversion).
\<close>

definition py_int :: "string \<Rightarrow> exn + int" where
  "py_int s =
     (let (neg, body) = split_sign (strip_with is_ascii_space (to_ascii s))
      in case drop_underscores (CHR '' '') body of
           None \<Rightarrow> Inl ValueError
         | Some ds \<Rightarrow>
             if ds \<noteq> [] \<and> list_all is_digit ds then
               if 4300 < length ds then Inl ValueError
               else Inr (if neg then - digits_value ds else digits_value ds)
             else Inl ValueError)"

subsection \<open>\<open>float(str)\<close>\<close>

definition lower_char :: "char \<Rightarrow> char" where
  "lower_char c =
     (let n = (of_char c :: nat) in if 65 \<le> n \<and> n \<le> 90 then char_of (n + 32) else c)"

definition parse_inf_or_nan :: "bool \<Rightarrow> string \<Rightarrow> pyfloat option" where
  "parse_inf_or_nan neg body =
     (let l = map lower_char body
      in if l = ''inf'' \<or> l = ''infinity'' then Some (if neg then NegInf else PosInf)
         else if l = ''nan'' then Some NaN
         else None)"

text \<open>
  A decimal literal: digits with an optional point (at least one digit in all), then an
  optional exponent \<open>e\<close>, sign, digits. The result is the exact rational value.
\<close>

definition parse_exponent :: "string \<Rightarrow> int option" where
  "parse_exponent s =
     (case s of
        [] \<Rightarrow> Some 0
      | c # cs \<Rightarrow>
          if c = CHR ''e'' \<or> c = CHR ''E'' then
            (let (neg, ds) = split_sign cs
             in if ds \<noteq> [] \<and> list_all is_digit ds
                then Some (if neg then - digits_value ds else digits_value ds)
                else None)
          else None)"

definition parse_decimal :: "string \<Rightarrow> rat option" where
  "parse_decimal s =
     (let ip = takeWhile is_digit s;
          r1 = dropWhile is_digit s;
          has_point = (r1 \<noteq> [] \<and> hd r1 = CHR ''.'');
          fp = (if has_point then takeWhile is_digit (tl r1) else []);
          r2 = (if has_point then dropWhile is_digit (tl r1) else r1)
      in if ip = [] \<and> fp = [] then None
         else case parse_exponent r2 of
                None \<Rightarrow> None
              | Some ex \<Rightarrow>
                  Some (of_int (digits_value (ip @ fp)) * pow10 (ex - int (length fp))))"

definition py_float :: "string \<Rightarrow> exn + pyfloat" where
  "py_float s =
     (case drop_underscores (CHR '' '') (strip_with is_ascii_space (to_ascii s)) of
        None \<Rightarrow> Inl ValueError
      | Some t \<Rightarrow>
          (let (neg, body) = split_sign t
           in case parse_decimal body of
                Some q \<Rightarrow> Inr (round_double (if neg then - q else q))
              | None \<Rightarrow>
                  (case parse_inf_or_nan neg body of
                     Some x \<Rightarrow> Inr x
                   | None \<Rightarrow> Inl ValueError)))"

section \<open>Quantity parsers (k8s.py)\<close>

definition parse_cpu_to_millicores :: "string \<Rightarrow> exn + int" where
  "parse_cpu_to_millicores cpu_str =
     (if cpu_str = [] \<or> cpu_str = ''0'' then Inr 0
      else if endswith cpu_str ''m'' then py_int (drop_last 1 cpu_str)
      else bind_exn (py_float cpu_str) (\<lambda>x. int_of_float (float_mul_int x 1000)))"

text \<open>\<open>int(int(s) / d)\<close>: a float division, then truncation.\<close>

definition int_div_trunc :: "string \<Rightarrow> int \<Rightarrow> exn + int" where
  "int_div_trunc s d =
     bind_exn (py_int s) (\<lambda>n. bind_exn (int_truediv n d) int_of_float)"

definition int_times :: "string \<Rightarrow> int \<Rightarrow> exn + int" where
  "int_times s k = bind_exn (py_int s) (\<lambda>n. Inr (n * k))"

definition parse_memory_to_mi :: "string \<Rightarrow> exn + int" where
  "parse_memory_to_mi memory_str0 =
     (if memory_str0 = [] \<or> memory_str0 = ''0'' then Inr 0
      else let memory_str = strip memory_str0
           in if endswith memory_str ''Ki'' then int_div_trunc (drop_last 2 memory_str) 1024
              else if endswith memory_str ''Mi'' then py_int (drop_last 2 memory_str)
              else if endswith memory_str ''Gi'' then int_times (drop_last 2 memory_str) 1024
              else if endswith memory_str ''Ti'' then int_times (drop_last 2 memory_str) (1024 * 1024)
              else int_div_trunc memory_str (1024 * 1024))"

definition parse_storage_to_gi :: "string \<Rightarrow> exn + int" where
  "parse_storage_to_gi storage_str0 =
     (if storage_str0 = [] \<or> storage_str0 = ''0'' then Inr 0
      else let storage_str = strip storage_str0
           in if endswith storage_str ''Ki'' then int_div_trunc (drop_last 2 storage_str) (1024 * 1024)
              else if endswith storage_str ''Mi'' then int_div_trunc (drop_last 2 storage_str) 1024
              else if endswith storage_str ''Gi'' then py_int (drop_last 2 storage_str)
              else if endswith storage_str ''Ti'' then int_times (drop_last 2 storage_str) 1024
              else int_div_trunc storage_str (1024 * 1024 * 1024))"

definition nonneg_float :: "pyfloat \<Rightarrow> bool" where
  "nonneg_float x =
     (case x of Finite q \<Rightarrow> 0 \<le> q | PosInf \<Rightarrow> True | NegInf \<Rightarrow> False | NaN \<Rightarrow> True)"

section \<open>The world the backend runs in\<close>

text \<open>
  The Kubernetes client, the MongoDB driver, the local sockets and the child processes are not
  part of the repository. Each call into them is answered by the environment \<open>env\<close>: a
  function of the time of the call (\<open>clock\<close>, which advances at every such call) and of the
  arguments, so that any sequence of answers is an environment, and the same call may be
  answered differently later on. A blocking call is taken to return. What the backend itself
  keeps is in \<open>world\<close>: the client global \<open>_k8s_v1\<close>, the documents of the \<open>students\<close>
  collection, the registry files, and a log of the calls that change something outside.

  The objects of the client are kept to the fields the backend reads: the allocatable
  quantities of a node, the namespace, phase and container requests of a pod. A phase is a
  string, a dictionary of quantities is a list of pairs read from the left, and the text of an
  error message or of a log line is kept as the values it is formatted from. What the handlers
  print is left out.
\<close>

type_synonym pydict = "(string \<times> string) list"

definition dict_get :: "pydict \<Rightarrow> string \<Rightarrow> string \<Rightarrow> string" where
  "dict_get d k dflt = (case map_of d k of None \<Rightarrow> dflt | Some v \<Rightarrow> v)"

record node =
  allocatable :: pydict

record container =
  requests :: "pydict option"

record pod =
  pod_namespace :: string
  pod_phase :: string
  containers :: "container list"

record pod_manifest =
  manifest_name :: string
  manifest_image :: string
  manifest_cpu :: string
  manifest_memory :: string
  manifest_storage :: string

datatype err_text =
    Cluster_unreachable exn
  | Str_of exn
  | Pod_not_found
  | Cannot_check_pod_status

record student_doc =
  doc_name :: string
  input_numeric :: "(pyfloat \<times> int \<times> int) option"
  k8s_resources :: "pydict option"
  status :: "string option"
  last_error :: "err_text option"

text \<open>
  A path is kept as \<open>pathlib\<close> keeps it on POSIX: the root (\<open>/\<close>, \<open>//\<close> or none) and the
  components, without the empty ones and without \<open>.\<close>. \<open>truediv\<close> is \<open>p / key\<close>: a key
  that starts with a slash replaces \<open>p\<close>, any other key adds its components to those of \<open>p\<close>.
\<close>

type_synonym path = "string \<times> string list"

fun split_on :: "char \<Rightarrow> string \<Rightarrow> string list" where
  "split_on sep [] = [[]]"
| "split_on sep (c # cs) =
     (if c = sep then [] # split_on sep cs
      else case split_on sep cs of
             [] \<Rightarrow> [[c]]
           | x # xs \<Rightarrow> (c # x) # xs)"

definition splitroot :: "string \<Rightarrow> string \<times> string" where
  "splitroot part =
     (let stripped_part = dropWhile (\<lambda>c. c = CHR ''/'') part
      in if length part - length stripped_part = 0 then ([], part)
         else if length part - length stripped_part = 2 then (''//'', stripped_part)
         else (''/'', stripped_part))"

definition parse_parts :: "string \<Rightarrow> path" where
  "parse_parts part =
     (case splitroot part of
        (anchor, rel) \<Rightarrow> (anchor, filter (\<lambda>x. x \<noteq> [] \<and> x \<noteq> ''.'') (split_on CHR ''/'' rel)))"

definition truediv :: "path \<Rightarrow> string \<Rightarrow> path" where
  "truediv p key =
     (case parse_parts key of
        (anchor2, parts2) \<Rightarrow> if anchor2 \<noteq> [] then (anchor2, parts2) else (fst p, snd p @ parts2))"

datatype json =
    JNull
  | JBool bool
  | JInt int
  | JFloat pyfloat
  | JStr string
  | JList "json list"
  | JDict "(string \<times> json) list"

datatype file_content = Malformed | Json json

datatype signal = SIGTERM | SIG0 | SIGKILL

datatype event =
    Admission_check pyfloat int int
  | Db_save student_doc
  | Db_status string string "err_text option"
  | Create_namespace string
  | Create_pod string pod_manifest
  | Spawn "string list"
  | Kill int signal
  | Write_file path

record env =
  student_pod_image :: string
  admin_password :: string
  kube_init :: "nat \<Rightarrow> string option"
  api_create_namespace :: "nat \<Rightarrow> string \<Rightarrow> exn option"
  api_create_namespaced_pod :: "nat \<Rightarrow> string \<Rightarrow> pod_manifest \<Rightarrow> exn option"
  api_read_namespaced_pod :: "nat \<Rightarrow> string \<Rightarrow> string \<Rightarrow> exn + string"
  api_list_node :: "nat \<Rightarrow> exn + node list"
  api_list_pod_for_all_namespaces :: "nat \<Rightarrow> exn + pod list"
  mongo_fault :: "nat \<Rightarrow> exn option"
  fs_fault :: "nat \<Rightarrow> exn option"
  connect_ok :: "nat \<Rightarrow> int \<Rightarrow> exn + bool"
  popen :: "nat \<Rightarrow> string list \<Rightarrow> exn + int"
  poll_exited :: "nat \<Rightarrow> int \<Rightarrow> bool"
  stderr_read :: "nat \<Rightarrow> int \<Rightarrow> exn + string"
  os_kill :: "nat \<Rightarrow> int \<Rightarrow> signal \<Rightarrow> exn option"

record world =
  clock :: nat
  k8s_v1 :: bool
  students :: "student_doc list"
  files :: "path \<Rightarrow> file_content option"
  trace :: "event list"

type_synonym 'a io = "world \<Rightarrow> (exn + 'a) \<times> world"

definition return_io :: "'a \<Rightarrow> 'a io" where
  "return_io x w = (Inr x, w)"

definition raise_io :: "exn \<Rightarrow> 'a io" where
  "raise_io e w = (Inl e, w)"

definition lift_io :: "exn + 'a \<Rightarrow> 'a io" where
  "lift_io r w = (r, w)"

definition bind_io :: "'a io \<Rightarrow> ('a \<Rightarrow> 'b io) \<Rightarrow> 'b io" where
  "bind_io m f w = (case m w of (Inl e, w') \<Rightarrow> (Inl e, w') | (Inr x, w') \<Rightarrow> f x w')"

text \<open>\<open>try: m except Exception as e: h e\<close>.\<close>

definition catch_io :: "'a io \<Rightarrow> (exn \<Rightarrow> 'a io) \<Rightarrow> 'a io" where
  "catch_io m h w = (case m w of (Inl e, w') \<Rightarrow> h e w' | (Inr x, w') \<Rightarrow> (Inr x, w'))"

text \<open>A call answered by the environment, logged with the events it stands for.\<close>

definition external :: "event list \<Rightarrow> (nat \<Rightarrow> exn + 'a) \<Rightarrow> 'a io" where
  "external evs f w = (f (clock w), w\<lparr>clock := Suc (clock w), trace := trace w @ evs\<rparr>)"

definition unit_result :: "exn option \<Rightarrow> exn + unit" where
  "unit_result r = (case r of None \<Rightarrow> Inr () | Some e \<Rightarrow> Inl e)"

definition log_event :: "event \<Rightarrow> unit io" where
  "log_event ev w = (Inr (), w\<lparr>trace := trace w @ [ev]\<rparr>)"

text \<open>\<open>str(n)\<close> for an integer.\<close>

fun show_nat :: "nat \<Rightarrow> string" where
  "show_nat n = (if n < 10 then [char_of (48 + n)] else show_nat (n div 10) @ [char_of (48 + n mod 10)])"

definition show_int :: "int \<Rightarrow> string" where
  "show_int i = (if i < 0 then CHR ''-'' # show_nat (nat (- i)) else show_nat (nat i))"

declare show_nat.simps [simp del]

text \<open>
  \<open>str(n)\<close>, and \<open>{n}\<close> in a formatted string, raise \<open>ValueError\<close> for an integer of more
  than 4300 digits (the limit CPython sets on the conversion, which \<open>int(str)\<close> has too).
\<close>

definition within_str_digits :: "int \<Rightarrow> bool" where
  "within_str_digits i = (length (show_nat (nat \<bar>i\<bar>)) \<le> 4300)"

definition str_int :: "int \<Rightarrow> exn + string" where
  "str_int i = (if within_str_digits i then Inr (show_int i) else Inl ValueError)"

section \<open>k8s.py\<close>

definition ensure_k8s :: "env \<Rightarrow> unit io" where
  "ensure_k8s E w =
     (if k8s_v1 w then (Inr (), w)
      else case kube_init E (clock w) of
             Some msg \<Rightarrow> (Inl (RuntimeError msg), w\<lparr>clock := Suc (clock w)\<rparr>)
           | None \<Rightarrow> (Inr (), w\<lparr>clock := Suc (clock w), k8s_v1 := True\<rparr>))"

text \<open>\<open>except ApiException as e: if e.status == code: ... else: raise\<close>.\<close>

definition on_api_status :: "nat \<Rightarrow> 'a \<Rightarrow> exn \<Rightarrow> 'a io" where
  "on_api_status code x e =
     (case e of
        ApiException st \<Rightarrow> if st = code then return_io x else raise_io e
      | _ \<Rightarrow> raise_io e)"

definition create_namespace :: "env \<Rightarrow> string \<Rightarrow> unit io" where
  "create_namespace E namespace_name =
     bind_io (ensure_k8s E) (\<lambda>_.
       catch_io
         (external [Create_namespace namespace_name]
            (\<lambda>t. unit_result (api_create_namespace E t namespace_name)))
         (on_api_status 409 ()))"

definition create_pod :: "env \<Rightarrow> string \<Rightarrow> string \<Rightarrow> string \<Rightarrow> string \<Rightarrow> string \<Rightarrow> int \<Rightarrow> unit io" where
  "create_pod E namespace name img cpu_qty memory_qty storage_qty =
     bind_io (ensure_k8s E) (\<lambda>_.
     bind_io (lift_io (str_int storage_qty)) (\<lambda>storage.
       (let pod_manifest = \<lparr>manifest_name = name @ ''-pod'', manifest_image = img,
              manifest_cpu = cpu_qty, manifest_memory = memory_qty,
              manifest_storage = storage @ ''Gi''\<rparr>
        in catch_io
             (external [Create_pod namespace pod_manifest]
                (\<lambda>t. unit_result (api_create_namespaced_pod E t namespace pod_manifest)))
             (on_api_status 409 ()))))"

definition get_pod_status :: "env \<Rightarrow> string \<Rightarrow> string \<Rightarrow> string io" where
  "get_pod_status E namespace name =
     bind_io (ensure_k8s E) (\<lambda>_.
       catch_io
         (external [] (\<lambda>t. api_read_namespaced_pod E t (name @ ''-pod'') namespace))
         (on_api_status 404 ''Not Found''))"

record triple =
  cpu_millicores :: int
  memory_mi :: int
  storage_gi :: int

record resources =
  total :: triple
  used :: triple
  available :: triple

definition parse_triple :: "pydict \<Rightarrow> exn + triple" where
  "parse_triple d =
     bind_exn (parse_cpu_to_millicores (dict_get d ''cpu'' ''0'')) (\<lambda>c.
     bind_exn (parse_memory_to_mi (dict_get d ''memory'' ''0'')) (\<lambda>m.
     bind_exn (parse_storage_to_gi (dict_get d ''ephemeral-storage'' ''0'')) (\<lambda>s.
       Inr \<lparr>cpu_millicores = c, memory_mi = m, storage_gi = s\<rparr>)))"

definition add_triple :: "triple \<Rightarrow> triple \<Rightarrow> triple" where
  "add_triple a b =
     \<lparr>cpu_millicores = cpu_millicores a + cpu_millicores b,
      memory_mi = memory_mi a + memory_mi b,
      storage_gi = storage_gi a + storage_gi b\<rparr>"

definition sub_triple :: "triple \<Rightarrow> triple \<Rightarrow> triple" where
  "sub_triple a b =
     \<lparr>cpu_millicores = cpu_millicores a - cpu_millicores b,
      memory_mi = memory_mi a - memory_mi b,
      storage_gi = storage_gi a - storage_gi b\<rparr>"

definition zero_triple :: triple where
  "zero_triple = \<lparr>cpu_millicores = 0, memory_mi = 0, storage_gi = 0\<rparr>"

text \<open>The inner loop: the containers of one pod that declare requests.\<close>

fun used_by_containers :: "triple \<Rightarrow> container list \<Rightarrow> exn + triple" where
  "used_by_containers acc [] = Inr acc"
| "used_by_containers acc (c # cs) =
     (case requests c of
        None \<Rightarrow> used_by_containers acc cs
      | Some rq \<Rightarrow>
          if rq = [] then used_by_containers acc cs
          else bind_exn (parse_triple rq) (\<lambda>t. used_by_containers (add_triple acc t) cs))"

definition skip_namespaces :: "string list" where
  "skip_namespaces = [''kube-system'', ''kube-public'', ''kube-node-lease'']"

text \<open>The outer loop, over the pods of all namespaces.\<close>

fun used_by_pods :: "triple \<Rightarrow> pod list \<Rightarrow> exn + triple" where
  "used_by_pods acc [] = Inr acc"
| "used_by_pods acc (p # ps) =
     (if pod_namespace p \<in> set skip_namespaces then used_by_pods acc ps
      else if pod_phase p \<notin> set [''Running'', ''Pending''] then used_by_pods acc ps
      else bind_exn (used_by_containers acc (containers p)) (\<lambda>acc'. used_by_pods acc' ps))"

definition get_cluster_resources :: "env \<Rightarrow> resources io" where
  "get_cluster_resources E =
     bind_io (ensure_k8s E) (\<lambda>_.
     bind_io (external [] (api_list_node E)) (\<lambda>nodes.
       case nodes of
         [] \<Rightarrow> raise_io (RuntimeError ''No nodes found in cluster'')
       | node # _ \<Rightarrow>
           bind_io (lift_io (parse_triple (allocatable node))) (\<lambda>tot.
           bind_io (external [] (api_list_pod_for_all_namespaces E)) (\<lambda>pods.
           bind_io (lift_io (used_by_pods zero_triple pods)) (\<lambda>usd.
             return_io \<lparr>total = tot, used = usd, available = sub_triple tot usd\<rparr>)))))"

datatype issue =
    Cpu_issue pyfloat int pyfloat int
  | Memory_issue int int
  | Storage_issue int int

datatype message =
    Resources_available
  | Insufficient "issue list"
  | Failed_to_check exn

record details =
  requested :: "pyfloat \<times> int \<times> int"
  details_available :: triple

record decision =
  is_available :: bool
  message :: message
  details :: "details option"

text \<open>
  The body of the \<open>try\<close> once the snapshot is there. Each entry of \<open>issues\<close> is kept as
  the values its text is formatted from, and formatting an entry can raise: every integer in
  it goes through \<open>str_int\<close>, in the order of the text, and the CPU entry divides the
  available millicores by 1000 as floats, which raises when the quotient is beyond the doubles.
\<close>

definition decide :: "triple \<Rightarrow> pyfloat \<Rightarrow> int \<Rightarrow> int \<Rightarrow> exn + decision" where
  "decide avail cpu_cores memory_mi' storage_gi' =
     bind_exn (int_of_float (float_mul_int cpu_cores 1000)) (\<lambda>requested_cpu_m.
     bind_exn
       (if cpu_millicores avail < requested_cpu_m
        then bind_exn (str_int requested_cpu_m) (\<lambda>_.
             bind_exn (int_truediv (cpu_millicores avail) 1000) (\<lambda>cores.
             bind_exn (str_int (cpu_millicores avail)) (\<lambda>_.
               Inr [Cpu_issue cpu_cores requested_cpu_m cores (cpu_millicores avail)])))
        else Inr []) (\<lambda>issues1.
     bind_exn
       (if memory_mi avail < memory_mi'
        then bind_exn (str_int memory_mi') (\<lambda>_.
             bind_exn (str_int (memory_mi avail)) (\<lambda>_.
               Inr (issues1 @ [Memory_issue memory_mi' (memory_mi avail)])))
        else Inr issues1) (\<lambda>issues2.
     bind_exn
       (if storage_gi avail < storage_gi'
        then bind_exn (str_int storage_gi') (\<lambda>_.
             bind_exn (str_int (storage_gi avail)) (\<lambda>_.
               Inr (issues2 @ [Storage_issue storage_gi' (storage_gi avail)])))
        else Inr issues2) (\<lambda>issues.
       (let det = \<lparr>requested = (cpu_cores, memory_mi', storage_gi'), details_available = avail\<rparr>
        in if issues \<noteq> []
           then Inr \<lparr>is_available = False, message = Insufficient issues, details = Some det\<rparr>
           else Inr \<lparr>is_available = True, message = Resources_available, details = Some det\<rparr>)))))"

definition check_resources_available :: "env \<Rightarrow> pyfloat \<Rightarrow> int \<Rightarrow> int \<Rightarrow> decision io" where
  "check_resources_available E cpu_cores memory_mi' storage_gi' =
     bind_io (log_event (Admission_check cpu_cores memory_mi' storage_gi')) (\<lambda>_.
       catch_io
         (bind_io (get_cluster_resources E) (\<lambda>rs.
            lift_io (decide (available rs) cpu_cores memory_mi' storage_gi')))
         (\<lambda>e. return_io \<lparr>is_available = False, message = Failed_to_check e, details = None\<rparr>))"

section \<open>models.py\<close>

record student_spec =
  spec_name :: string
  spec_cpu :: pyfloat
  spec_memory :: int
  spec_storage :: int



definition pos_int :: "int \<Rightarrow> exn + int" where
  "pos_int v = (if v \<le> 0 then Inl ValueError else Inr v)"

text \<open>\<open>x < 1\<close> and \<open>round(x)\<close> on a float.\<close>

definition float_less_one :: "pyfloat \<Rightarrow> bool" where
  "float_less_one x =
     (case x of Finite q \<Rightarrow> q < 1 | PosInf \<Rightarrow> False | NegInf \<Rightarrow> True | NaN \<Rightarrow> False)"

definition py_round :: "pyfloat \<Rightarrow> exn + int" where
  "py_round x =
     (case x of
        Finite q \<Rightarrow> Inr (round_half_even q)
      | PosInf \<Rightarrow> Inl OverflowError
      | NegInf \<Rightarrow> Inl OverflowError
      | NaN \<Rightarrow> Inl ValueError)"

definition to_k8s_resources :: "student_spec \<Rightarrow> exn + pydict" where
  "to_k8s_resources self =
     bind_exn
       (if float_less_one (spec_cpu self)
        then bind_exn (py_round (float_mul_int (spec_cpu self) 1000)) (\<lambda>n.
             bind_exn (str_int n) (\<lambda>digits. Inr (digits @ ''m'')))
        else bind_exn (py_round (spec_cpu self)) str_int) (\<lambda>cpu_str.
     bind_exn (str_int (spec_memory self)) (\<lambda>mem.
     bind_exn (str_int (spec_storage self)) (\<lambda>storage.
       Inr [(''cpu'', cpu_str), (''memory'', mem @ ''Mi''), (''storage'', storage @ ''Gi'')])))"

definition to_persisted_doc :: "student_spec \<Rightarrow> exn + student_doc" where
  "to_persisted_doc self =
     bind_exn (to_k8s_resources self) (\<lambda>k.
       Inr \<lparr>doc_name = spec_name self,
            input_numeric = Some (spec_cpu self, spec_memory self, spec_storage self),
            k8s_resources = Some k,
            status = None,
            last_error = None\<rparr>)"

section \<open>db.py\<close>

text \<open>
  One operation on the collection: it raises when the driver cannot be set up or reached,
  and otherwise reads or changes the documents.
\<close>

definition mongo :: "env \<Rightarrow> event list \<Rightarrow> (student_doc list \<Rightarrow> 'a \<times> student_doc list) \<Rightarrow> 'a io" where
  "mongo E evs f w =
     (case mongo_fault E (clock w) of
        Some e \<Rightarrow> (Inl e, w\<lparr>clock := Suc (clock w)\<rparr>)
      | None \<Rightarrow>
          (Inr (fst (f (students w))),
           w\<lparr>clock := Suc (clock w), students := snd (f (students w)), trace := trace w @ evs\<rparr>))"

text \<open>\<open>update_one({"name": n}, {"$set": ...})\<close> changes the first document of that name.\<close>

fun update_first :: "string \<Rightarrow> (student_doc \<Rightarrow> student_doc) \<Rightarrow> student_doc list \<Rightarrow> student_doc list option" where
  "update_first n g [] = None"
| "update_first n g (d # ds) =
     (if doc_name d = n then Some (g d # ds) else map_option ((#) d) (update_first n g ds))"

definition upsert :: "student_doc \<Rightarrow> student_doc list \<Rightarrow> student_doc list" where
  "upsert doc col =
     (case update_first (doc_name doc)
             (\<lambda>d. d\<lparr>input_numeric := input_numeric doc, k8s_resources := k8s_resources doc,
                     status := status doc\<rparr>) col of
        Some col' \<Rightarrow> col'
      | None \<Rightarrow> col @ [doc])"

definition save_or_update_student :: "env \<Rightarrow> student_doc \<Rightarrow> string \<Rightarrow> unit io" where
  "save_or_update_student E doc status' =
     mongo E [Db_save (doc\<lparr>status := Some status'\<rparr>)]
       (\<lambda>col. ((), upsert (doc\<lparr>status := Some status'\<rparr>) col))"

definition get_student :: "env \<Rightarrow> string \<Rightarrow> student_doc option io" where
  "get_student E name = mongo E [] (\<lambda>col. (find (\<lambda>d. doc_name d = name) col, col))"

definition list_students :: "env \<Rightarrow> student_doc list io" where
  "list_students E = mongo E [] (\<lambda>col. (col, col))"

text \<open>\<open>if error:\<close> holds for a text that is not empty.\<close>

definition text_nonempty :: "err_text \<Rightarrow> bool" where
  "text_nonempty t =
     (case t of
        Str_of (RuntimeError m) \<Rightarrow> m \<noteq> []
      | Str_of (OtherError m) \<Rightarrow> m \<noteq> []
      | _ \<Rightarrow> True)"

definition set_status :: "string \<Rightarrow> err_text option \<Rightarrow> student_doc \<Rightarrow> student_doc" where
  "set_status status' error d =
     (case error of
        None \<Rightarrow> d\<lparr>status := Some status'\<rparr>
      | Some t \<Rightarrow>
          if text_nonempty t then d\<lparr>status := Some status', last_error := Some t\<rparr>
          else d\<lparr>status := Some status'\<rparr>)"

definition update_student_status :: "env \<Rightarrow> string \<Rightarrow> string \<Rightarrow> err_text option \<Rightarrow> unit io" where
  "update_student_status E name status' error =
     mongo E [Db_status name status' error]
       (\<lambda>col. ((), case update_first name (set_status status' error) col of
                       Some col' \<Rightarrow> col' | None \<Rightarrow> col))"

section \<open>app.py: submit, deploy, deploy-from-db, admin listing\<close>


datatype submit_response = Queued string

definition submit :: "env \<Rightarrow> student_spec \<Rightarrow> submit_response io" where
  "submit E spec =
     bind_io (check_resources_available E (spec_cpu spec) (spec_memory spec) (spec_storage spec))
       (\<lambda>resource_check.
          if is_available resource_check then
            bind_io (lift_io (to_persisted_doc spec)) (\<lambda>doc.
              catch_io
                (bind_io (save_or_update_student E doc ''pending'') (\<lambda>_.
                   return_io (Queued (spec_name spec))))
                (\<lambda>e. raise_io (HTTPException 500 Database_error)))
          else raise_io (HTTPException 400 Insufficient_resources))"

record deploy_response =
  resp_status :: string
  resp_namespace :: string
  resp_pod :: string
  resp_image :: string
  resp_requested :: pydict
  resp_phase :: string

text \<open>
  The second \<open>try\<close> of both deploy handlers: create the namespace and the pod, read the
  phase, record \<open>deployed\<close>; on any exception record \<open>failed\<close> and answer 500.
\<close>

definition provision :: "env \<Rightarrow> string \<Rightarrow> string \<Rightarrow> string \<Rightarrow> int \<Rightarrow> string io" where
  "provision E name cpu_qty memory_qty storage_qty =
     catch_io
       (bind_io (create_namespace E name) (\<lambda>_.
        bind_io (create_pod E name name (student_pod_image E) cpu_qty memory_qty storage_qty) (\<lambda>_.
        bind_io (get_pod_status E name name) (\<lambda>phase.
        bind_io (update_student_status E name ''deployed'' None) (\<lambda>_.
          return_io phase)))))
       (\<lambda>e. bind_io (update_student_status E name ''failed'' (Some (Str_of e))) (\<lambda>_.
              raise_io (HTTPException 500 K8s_error)))"

definition deploy :: "env \<Rightarrow> student_spec \<Rightarrow> deploy_response io" where
  "deploy E spec =
     bind_io (get_pod_status E (spec_name spec) (spec_name spec)) (\<lambda>existing_phase.
       if existing_phase = ''Not Found'' then
         bind_io (lift_io (to_persisted_doc spec)) (\<lambda>doc.
         bind_io (save_or_update_student E doc ''pending'') (\<lambda>_.
         bind_io (lift_io (to_k8s_resources spec)) (\<lambda>r.
         bind_io (provision E (spec_name spec) (dict_get r ''cpu'' []) (dict_get r ''memory'' [])
                    (spec_storage spec)) (\<lambda>phase.
           return_io \<lparr>resp_status = ''deploying'', resp_namespace = spec_name spec,
                      resp_pod = spec_name spec @ ''-pod'', resp_image = student_pod_image E,
                      resp_requested = r, resp_phase = phase\<rparr>))))
       else raise_io (HTTPException 409 (Pod_exists existing_phase)))"

text \<open>\<open>s.replace("Gi", "")\<close>.\<close>

fun remove_Gi :: "string \<Rightarrow> string" where
  "remove_Gi (a # b # cs) =
     (if a = CHR ''G'' \<and> b = CHR ''i'' then remove_Gi cs else a # remove_Gi (b # cs))"
| "remove_Gi cs = cs"

text \<open>\<open>except RuntimeError as e\<close>: no other exception is caught.\<close>

definition catch_runtime_error :: "'a io \<Rightarrow> (exn \<Rightarrow> 'a io) \<Rightarrow> 'a io" where
  "catch_runtime_error m h =
     catch_io m (\<lambda>e. case e of RuntimeError msg \<Rightarrow> h e | _ \<Rightarrow> raise_io e)"

definition falsy_str :: "string option \<Rightarrow> bool" where
  "falsy_str x = (case x of None \<Rightarrow> True | Some s \<Rightarrow> s = [])"

text \<open>The string behind a value that is not falsy.\<close>

definition str_or_empty :: "string option \<Rightarrow> string" where
  "str_or_empty x = (case x of None \<Rightarrow> [] | Some s \<Rightarrow> s)"

text \<open>\<open>doc.get("k8s_resources") or {}\<close>.\<close>

definition k8s_or_empty :: "student_doc \<Rightarrow> pydict" where
  "k8s_or_empty doc = (case k8s_resources doc of None \<Rightarrow> [] | Some k \<Rightarrow> k)"

definition deploy_from_db :: "env \<Rightarrow> string \<Rightarrow> deploy_response io" where
  "deploy_from_db E name =
     bind_io (get_student E name) (\<lambda>found.
       case found of
         None \<Rightarrow> raise_io (HTTPException 404 Not_in_mongodb)
       | Some doc \<Rightarrow>
           (let k8s = k8s_or_empty doc;
                cpu = map_of k8s ''cpu'';
                memory = map_of k8s ''memory'';
                storage_str = dict_get k8s ''storage'' ''1Gi''
            in bind_io (lift_io (py_int (remove_Gi storage_str))) (\<lambda>storage_gb.
                 if falsy_str cpu then raise_io (HTTPException 500 Missing_cpu_memory)
                 else if falsy_str memory then raise_io (HTTPException 500 Missing_cpu_memory)
                 else
                   bind_io
                     (catch_runtime_error
                        (bind_io (get_pod_status E name name) (\<lambda>existing_phase.
                           if existing_phase = ''Not Found'' then return_io ()
                           else raise_io (HTTPException 409 (Pod_exists existing_phase))))
                        (\<lambda>e. bind_io (update_student_status E name ''pending''
                                         (Some (Cluster_unreachable e))) (\<lambda>_.
                               raise_io (HTTPException 503 Unreachable_saved_pending)))) (\<lambda>_.
                   bind_io (provision E name (str_or_empty cpu) (str_or_empty memory) storage_gb) (\<lambda>phase.
                     return_io \<lparr>resp_status = ''deploying-from-db'', resp_namespace = name,
                                resp_pod = name @ ''-pod'', resp_image = student_pod_image E,
                                resp_requested = k8s, resp_phase = phase\<rparr>)))))"






section \<open>app.py: port-forward sessions\<close>

definition truthy :: "json \<Rightarrow> bool" where
  "truthy j =
     (case j of
        JNull \<Rightarrow> False
      | JBool b \<Rightarrow> b
      | JInt n \<Rightarrow> n \<noteq> 0
      | JFloat x \<Rightarrow> x \<noteq> Finite 0
      | JStr s \<Rightarrow> s \<noteq> []
      | JList l \<Rightarrow> l \<noteq> []
      | JDict d \<Rightarrow> d \<noteq> [])"

text \<open>\<open>existing["port"]\<close>.\<close>

definition json_item :: "json \<Rightarrow> string \<Rightarrow> exn + json" where
  "json_item j k =
     (case j of
        JDict d \<Rightarrow> (case map_of d k of None \<Rightarrow> Inl KeyError | Some v \<Rightarrow> Inr v)
      | _ \<Rightarrow> Inl TypeError)"

text \<open>
  The registry file of a name is the path \<open>PF_DIR / f"{name}.json"\<close>, and a file is found by
  its path: two names with one path, such as \<open>alice\<close> and \<open>./alice\<close>, have one file. What the
  file system adds to the paths of \<open>pathlib\<close> (symbolic links, \<open>..\<close>) is left out. A file
  is kept as what \<open>json.loads\<close> makes of its text (\<open>Malformed\<close> when it raises). Reading
  and writing a file may fail, as the environment says.
\<close>

definition PF_DIR :: path where
  "PF_DIR = (''/'', [''tmp'', ''student_pf''])"

definition pidfile :: "string \<Rightarrow> path" where
  "pidfile name = truediv PF_DIR (name @ ''.json'')"

definition write_text :: "env \<Rightarrow> path \<Rightarrow> file_content \<Rightarrow> unit io" where
  "write_text E f c w =
     (case fs_fault E (clock w) of
        Some e \<Rightarrow> (Inl e, w\<lparr>clock := Suc (clock w)\<rparr>)
      | None \<Rightarrow>
          (Inr (),
           w\<lparr>clock := Suc (clock w), files := (files w)(f \<mapsto> c),
             trace := trace w @ [Write_file f]\<rparr>))"

text \<open>\<open>json.dumps\<close> writes the two integers of the entry as \<open>str\<close> does.\<close>

definition save_pf :: "env \<Rightarrow> string \<Rightarrow> int \<Rightarrow> int \<Rightarrow> unit io" where
  "save_pf E name pid port =
     bind_io (lift_io (str_int pid)) (\<lambda>_.
     bind_io (lift_io (str_int port)) (\<lambda>_.
       write_text E (pidfile name)
         (Json (JDict [(''name'', JStr name), (''pid'', JInt pid), (''port'', JInt port)]))))"

definition load_pf :: "env \<Rightarrow> string \<Rightarrow> json option io" where
  "load_pf E name w =
     (case files w (pidfile name) of
        None \<Rightarrow> (Inr None, w)
      | Some c \<Rightarrow>
          (case fs_fault E (clock w) of
             Some e \<Rightarrow> (Inl e, w\<lparr>clock := Suc (clock w)\<rparr>)
           | None \<Rightarrow>
               (case c of
                  Malformed \<Rightarrow> (Inl ValueError, w\<lparr>clock := Suc (clock w)\<rparr>)
                | Json j \<Rightarrow> (Inr (Some j), w\<lparr>clock := Suc (clock w)\<rparr>))))"

definition is_port_free :: "env \<Rightarrow> int \<Rightarrow> bool io" where
  "is_port_free E port =
     external [] (\<lambda>t. bind_exn (connect_ok E t port) (\<lambda>connected. Inr (\<not> connected)))"

fun first_free_port :: "env \<Rightarrow> int list \<Rightarrow> world \<Rightarrow> (exn + int) \<times> world" where
  "first_free_port E [] w = (Inl (RuntimeError ''No free local port found in range 8001-9000''), w)"
| "first_free_port E (p # ps) w =
     (case is_port_free E p w of
        (Inl e, w') \<Rightarrow> (Inl e, w')
      | (Inr free, w') \<Rightarrow> if free then (Inr p, w') else first_free_port E ps w')"

definition next_free_port :: "env \<Rightarrow> int \<Rightarrow> int \<Rightarrow> int io" where
  "next_free_port E start end' = first_free_port E [start..end']"

definition sleep :: "unit io" where
  "sleep w = (Inr (), w\<lparr>clock := Suc (clock w)\<rparr>)"

definition kill :: "env \<Rightarrow> int \<Rightarrow> signal \<Rightarrow> unit io" where
  "kill E pid sg = external [Kill pid sg] (\<lambda>t. unit_result (os_kill E t pid sg))"

text \<open>The loop of \<open>_kill_pid\<close> that waits for the process to go; \<open>True\<close> when it is gone.\<close>

fun wait_gone :: "env \<Rightarrow> int \<Rightarrow> nat \<Rightarrow> world \<Rightarrow> (exn + bool) \<times> world" where
  "wait_gone E pid 0 w = (Inr False, w)"
| "wait_gone E pid (Suc n) w =
     (case bind_io sleep (\<lambda>_. kill E pid SIG0) w of
        (Inl ProcessLookupError, w') \<Rightarrow> (Inr True, w')
      | (Inl e, w') \<Rightarrow> (Inl e, w')
      | (Inr _, w') \<Rightarrow> wait_gone E pid n w')"

definition kill_pid :: "env \<Rightarrow> int \<Rightarrow> unit io" where
  "kill_pid E pid =
     bind_io (catch_io (bind_io (kill E pid SIGTERM) (\<lambda>_. return_io False))
                (\<lambda>e. if e = ProcessLookupError then return_io True else raise_io e)) (\<lambda>gone0.
       if gone0 then return_io ()
       else bind_io (wait_gone E pid 10) (\<lambda>gone.
              if gone then return_io ()
              else catch_io (kill E pid SIGKILL)
                     (\<lambda>e. if e = ProcessLookupError then return_io () else raise_io e)))"

text \<open>The loop that waits for the local port to open; \<open>True\<close> when it has.\<close>

fun wait_open :: "env \<Rightarrow> int \<Rightarrow> int \<Rightarrow> nat \<Rightarrow> world \<Rightarrow> (exn + bool) \<times> world" where
  "wait_open E pid lp 0 w = (Inr False, w)"
| "wait_open E pid lp (Suc n) w =
     (case bind_io sleep (\<lambda>_. external [] (\<lambda>t. Inr (poll_exited E t pid))) w of
        (Inl e, w') \<Rightarrow> (Inl e, w')
      | (Inr exited, w') \<Rightarrow>
          if exited then (Inr False, w')
          else (case is_port_free E lp w' of
                  (Inl e, w'') \<Rightarrow> (Inl e, w'')
                | (Inr free, w'') \<Rightarrow> if free then wait_open E pid lp n w'' else (Inr True, w'')))"

record pf_response =
  pf_status :: string
  pf_name :: string
  local_port :: json
  url_port :: json

text \<open>The list \<open>cmd\<close>; its last item is \<open>f"{lp}:{target_port}"\<close>.\<close>

definition kubectl_command :: "string \<Rightarrow> int \<Rightarrow> int \<Rightarrow> exn + string list" where
  "kubectl_command name lp target_port =
     bind_exn (str_int lp) (\<lambda>l.
     bind_exn (str_int target_port) (\<lambda>t.
       Inr [''kubectl'', ''port-forward'', ''-n'', name, ''pod/'' @ name @ ''-pod'', l @ '':'' @ t]))"

text \<open>What \<open>pf_start\<close> does when there is no session to return: choose a port, spawn, wait.\<close>

definition spawn_forward :: "env \<Rightarrow> string \<Rightarrow> int \<Rightarrow> int option \<Rightarrow> pf_response io" where
  "spawn_forward E name target_port local_port' =
     bind_io (case local_port' of
                None \<Rightarrow> next_free_port E 8001 9000
              | Some p \<Rightarrow> if p = 0 then next_free_port E 8001 9000 else return_io p) (\<lambda>lp.
     bind_io (lift_io (kubectl_command name lp target_port)) (\<lambda>cmd.
     bind_io (external [Spawn cmd] (\<lambda>t. popen E t cmd)) (\<lambda>pid.
     bind_io (wait_open E pid lp 20) (\<lambda>ok.
       if ok then
         bind_io (save_pf E name pid lp) (\<lambda>_.
           return_io \<lparr>pf_status = ''forwarding'', pf_name = name,
                      local_port = JInt lp, url_port = JInt lp\<rparr>)
       else
         bind_io (catch_io (bind_io (external [] (\<lambda>t. stderr_read E t pid)) (\<lambda>_. return_io ()))
                    (\<lambda>e. return_io ())) (\<lambda>_.
         bind_io (catch_io (kill_pid E pid) (\<lambda>e. return_io ())) (\<lambda>_.
           raise_io (HTTPException 500 (Pf_failed lp))))))))"

text \<open>
  The answer for a session that is there. The port is whatever the entry holds under
  \<open>port\<close>; putting it in the text of the URL does not raise, as \<open>json.loads\<close> yields no
  integer of more than 4300 digits.
\<close>

definition already_forwarding :: "string \<Rightarrow> json \<Rightarrow> pf_response io" where
  "already_forwarding name existing =
     bind_io (lift_io (json_item existing ''port'')) (\<lambda>port.
       return_io \<lparr>pf_status = ''already-forwarding'', pf_name = name,
                  local_port = port, url_port = port\<rparr>)"

definition pf_start :: "env \<Rightarrow> string \<Rightarrow> int \<Rightarrow> int option \<Rightarrow> pf_response io" where
  "pf_start E name target_port local_port' =
     (if strip name = [] then raise_io (HTTPException 400 Name_required)
      else
        bind_io (load_pf E name) (\<lambda>existing.
          case existing of
            None \<Rightarrow> spawn_forward E name target_port local_port'
          | Some j \<Rightarrow>
              if truthy j then already_forwarding name j
              else spawn_forward E name target_port local_port'))"

section \<open>Notions the properties are stated with\<close>

text \<open>The events a handler run adds to the log.\<close>

definition new_events :: "world \<Rightarrow> world \<Rightarrow> event list" where
  "new_events w w' = drop (length (trace w)) (trace w')"

text \<open>
  An event persists or deploys a spec when it writes the spec's document or creates its
  namespace or pod. A log is \<open>admitted_first\<close> for a spec when each such event comes after an
  admission check of that spec's cpu, memory and storage.
\<close>

fun persists_or_deploys :: "event \<Rightarrow> bool" where
  "persists_or_deploys (Db_save d) = True"
| "persists_or_deploys (Create_namespace n) = True"
| "persists_or_deploys (Create_pod n m) = True"
| "persists_or_deploys _ = False"

definition admission_of :: "student_spec \<Rightarrow> event" where
  "admission_of spec = Admission_check (spec_cpu spec) (spec_memory spec) (spec_storage spec)"

fun admitted_first :: "student_spec \<Rightarrow> bool \<Rightarrow> event list \<Rightarrow> bool" where
  "admitted_first spec seen [] = True"
| "admitted_first spec seen (ev # evs) =
     (if ev = admission_of spec then admitted_first spec True evs
      else if persists_or_deploys ev then seen \<and> admitted_first spec seen evs
      else admitted_first spec seen evs)"

fun is_admission_check :: "event \<Rightarrow> bool" where
  "is_admission_check (Admission_check c m s) = True"
| "is_admission_check _ = False"




text \<open>The total of a snapshot as the specification words it: the sum over all the nodes.\<close>

fun spec_total :: "node list \<Rightarrow> exn + triple" where
  "spec_total [] = Inr zero_triple"
| "spec_total (n # ns) =
     bind_exn (parse_triple (allocatable n)) (\<lambda>t.
     bind_exn (spec_total ns) (\<lambda>r. Inr (add_triple t r)))"





subsection \<open>Sample environments and worlds\<close>

text \<open>
  A cluster with one node and no pod yet, where every call succeeds; and a process that has
  just started, with nothing stored.
\<close>

definition sample_node :: node where
  "sample_node = \<lparr>allocatable = [(''cpu'', ''4''), (''memory'', ''8Gi''), (''ephemeral-storage'', ''100Gi'')]\<rparr>"

definition quiet_env :: env where
  "quiet_env =
     \<lparr>student_pod_image = ''student-web:latest'',
      admin_password = ''secret'',
      kube_init = (\<lambda>t. None),
      api_create_namespace = (\<lambda>t ns. None),
      api_create_namespaced_pod = (\<lambda>t ns m. None),
      api_read_namespaced_pod = (\<lambda>t n ns. Inl (ApiException 404)),
      api_list_node = (\<lambda>t. Inr [sample_node]),
      api_list_pod_for_all_namespaces = (\<lambda>t. Inr []),
      mongo_fault = (\<lambda>t. None),
      fs_fault = (\<lambda>t. None),
      connect_ok = (\<lambda>t p. Inr False),
      popen = (\<lambda>t cmd. Inr 4242),
      poll_exited = (\<lambda>t pid. False),
      stderr_read = (\<lambda>t pid. Inr []),
      os_kill = (\<lambda>t pid sg. None)\<rparr>"

definition fresh_world :: world where
  "fresh_world = \<lparr>clock = 0, k8s_v1 = False, students = [], files = (\<lambda>n. None), trace = []\<rparr>"

definition alice :: student_spec where
  "alice = \<lparr>spec_name = ''alice'', spec_cpu = Finite (1 / 2), spec_memory = 512, spec_storage = 1\<rparr>"

definition two_node_env :: env where
  "two_node_env = quiet_env\<lparr>api_list_node := (\<lambda>t. Inr [sample_node, sample_node])\<rparr>"

definition no_config_env :: env where
  "no_config_env = quiet_env\<lparr>kube_init := (\<lambda>t. Some ''could not load kube config'')\<rparr>"

text \<open>
  Two notions for reasoning about logs: every run of \<open>m\<close> only adds events, and all of them
  satisfy \<open>P\<close>; every run of \<open>m\<close> adds the event \<open>ev\<close> before any other.
\<close>

definition emits :: "(event \<Rightarrow> bool) \<Rightarrow> 'a io \<Rightarrow> bool" where
  "emits P m = (\<forall>w. \<exists>evs. trace (snd (m w)) = trace w @ evs \<and> list_all P evs)"

definition starts_with :: "event \<Rightarrow> 'a io \<Rightarrow> bool" where
  "starts_with ev m = (\<forall>w. \<exists>evs. trace (snd (m w)) = trace w @ ev # evs)"

definition running_env :: env where
  "running_env = quiet_env\<lparr>api_read_namespaced_pod := (\<lambda>t n ns. Inr ''Running'')\<rparr>"

definition conflict_env :: env where
  "conflict_env =
     quiet_env\<lparr>api_create_namespace := (\<lambda>t ns. Some (ApiException 409)),
               api_create_namespaced_pod := (\<lambda>t ns m. Some (ApiException 409))\<rparr>"






definition session_world :: world where
  "session_world =
     fresh_world\<lparr>files := (\<lambda>f. if f = pidfile ''alice''
        then Some (Json (JDict [(''name'', JStr ''alice''), (''pid'', JInt 4242), (''port'', JInt 8001)]))
        else None)\<rparr>"


definition bob :: student_spec where
  "bob = \<lparr>spec_name = ''bob'', spec_cpu = Finite 8, spec_memory = 512, spec_storage = 200\<rparr>"

section \<open>Verification\<close>

subsection \<open>Quantity parsers\<close>

lemma digit_val_nonneg: "is_digit c \<Longrightarrow> 0 \<le> digit_val c"
  by (simp add: is_digit_def digit_val_def Let_def)

lemma foldl_digits_nonneg:
  "list_all is_digit ds \<Longrightarrow> 0 \<le> a \<Longrightarrow> 0 \<le> foldl (\<lambda>a c. 10 * a + digit_val c) a ds"
proof (induction ds arbitrary: a)
  case Nil
  then show ?case by simp
next
  case (Cons c cs)
  then have "0 \<le> 10 * a + digit_val c"
    using digit_val_nonneg [of c] by simp
  with Cons show ?case by simp
qed

lemma digits_value_nonneg: "list_all is_digit ds \<Longrightarrow> 0 \<le> digits_value ds"
  by (simp add: digits_value_def foldl_digits_nonneg)

lemma split_sign_no_minus: "CHR ''-'' \<notin> set s \<Longrightarrow> fst (split_sign s) = False"
  by (cases s) (auto simp: split_sign_def)

lemma split_sign_subset: "set (snd (split_sign s)) \<subseteq> set s"
  by (cases s) (auto simp: split_sign_def)

lemma transform_ascii_no_minus: "CHR ''-'' \<notin> set s \<Longrightarrow> CHR ''-'' \<notin> set (transform_ascii s)"
  by (induction s) auto

lemma to_ascii_no_minus: "CHR ''-'' \<notin> set s \<Longrightarrow> CHR ''-'' \<notin> set (to_ascii s)"
  by (simp add: to_ascii_def transform_ascii_no_minus)

lemma strip_with_subset: "set (strip_with ws s) \<subseteq> set s"
proof -
  have "set (dropWhile ws (rev (dropWhile ws s))) \<subseteq> set (rev (dropWhile ws s))"
    by (rule set_dropWhileD [THEN subsetI])
  also have "\<dots> \<subseteq> set s"
    using set_dropWhileD [of _ ws s] by auto
  finally show ?thesis by (simp add: strip_with_def)
qed

lemma drop_last_subset: "set (drop_last k s) \<subseteq> set s"
  by (simp add: drop_last_def set_take_subset)

lemma drop_underscores_subset: "drop_underscores prev s = Some t \<Longrightarrow> set t \<subseteq> set s"
  by (induction prev s arbitrary: t rule: drop_underscores.induct) (auto split: if_splits)

lemma py_int_nonneg:
  assumes "CHR ''-'' \<notin> set s" and "py_int s = Inr v"
  shows "0 \<le> v"
proof -
  let ?t = "strip_with is_ascii_space (to_ascii s)"
  have "CHR ''-'' \<notin> set ?t"
    using to_ascii_no_minus [OF assms(1)] strip_with_subset [of is_ascii_space "to_ascii s"] by auto
  then have neg: "fst (split_sign ?t) = False"
    by (rule split_sign_no_minus)
  obtain body where sp: "split_sign ?t = (False, body)"
    using neg by (cases "split_sign ?t") auto
  from assms(2) show ?thesis
    by (auto simp: py_int_def sp digits_value_nonneg split: option.splits if_splits)
qed

lemma pow2_pos: "0 < pow2 k"
  by (simp add: pow2_def)

lemma round_half_even_nonneg: "0 \<le> q \<Longrightarrow> 0 \<le> round_half_even q"
  by (auto simp: round_half_even_def Let_def)

lemma round_double_nonneg:
  assumes "0 \<le> q" and "round_double q = Finite r"
  shows "0 \<le> r"
proof (cases "q = 0")
  case True
  with assms(2) show ?thesis by (simp add: round_double_def)
next
  case False
  with assms(1) have pos: "0 < q" by simp
  define p where "p = max (ilog2 \<bar>q\<bar> - 52) (- 1074)"
  have "0 \<le> \<bar>q\<bar> / pow2 p"
    using pow2_pos [of p] by simp
  then have "0 \<le> round_half_even (\<bar>q\<bar> / pow2 p)"
    by (rule round_half_even_nonneg)
  then have "0 \<le> rat_of_int (round_half_even (\<bar>q\<bar> / pow2 p)) * pow2 p"
    using pow2_pos [of p] by simp
  with assms(2) pos False show ?thesis
    by (auto simp: round_double_def Let_def p_def split: if_splits)
qed

lemma round_double_not_neginf: "0 \<le> q \<Longrightarrow> round_double q \<noteq> NegInf"
  by (auto simp: round_double_def Let_def)

lemma trunc_rat_nonneg: "0 \<le> q \<Longrightarrow> 0 \<le> trunc_rat q"
  by (simp add: trunc_rat_def)

lemma round_double_nonneg_float: "0 \<le> q \<Longrightarrow> nonneg_float (round_double q)"
  using round_double_nonneg [of q] round_double_not_neginf [of q]
  by (cases "round_double q") (auto simp: nonneg_float_def)


lemma float_mul_int_nonneg:
  assumes "nonneg_float x" and "0 < n"
  shows "nonneg_float (float_mul_int x n)"
proof (cases x)
  case (Finite q)
  with assms have "0 \<le> q * of_int n"
    by (simp add: nonneg_float_def)
  then show ?thesis
    by (simp add: float_mul_int_def Finite round_double_nonneg_float)
next
  case PosInf
  with assms show ?thesis by (simp add: float_mul_int_def nonneg_float_def)
next
  case NegInf
  with assms show ?thesis by (simp add: nonneg_float_def)
next
  case NaN
  then show ?thesis by (simp add: float_mul_int_def nonneg_float_def)
qed

lemma int_of_float_nonneg: "nonneg_float x \<Longrightarrow> int_of_float x = Inr v \<Longrightarrow> 0 \<le> v"
  by (cases x) (auto simp: int_of_float_def nonneg_float_def trunc_rat_nonneg)

lemma takeWhile_all_digits: "list_all is_digit (takeWhile is_digit s)"
  by (auto simp: list_all_iff dest: set_takeWhileD)

lemma pow10_pos: "0 < pow10 k"
  by (simp add: pow10_def)

lemma parse_decimal_nonneg:
  assumes "parse_decimal s = Some q"
  shows "0 \<le> q"
proof -
  define fp where "fp = (if dropWhile is_digit s \<noteq> [] \<and> hd (dropWhile is_digit s) = CHR ''.''
     then takeWhile is_digit (tl (dropWhile is_digit s)) else [])"
  have "list_all is_digit fp"
    by (simp add: fp_def takeWhile_all_digits)
  then have "list_all is_digit (takeWhile is_digit s @ fp)"
    by (simp add: takeWhile_all_digits)
  then have m: "0 \<le> rat_of_int (digits_value (takeWhile is_digit s @ fp))"
    using digits_value_nonneg by simp
  obtain k where "q = rat_of_int (digits_value (takeWhile is_digit s @ fp)) * pow10 k"
    using assms unfolding parse_decimal_def Let_def fp_def [symmetric]
    by (auto split: if_splits option.splits)
  then show ?thesis
    using m pow10_pos [of k] by simp
qed

lemma parse_inf_or_nan_nonneg: "parse_inf_or_nan False body = Some x \<Longrightarrow> nonneg_float x"
  by (auto simp: parse_inf_or_nan_def Let_def nonneg_float_def split: if_splits)

lemma py_float_nonneg:
  assumes "CHR ''-'' \<notin> set s" and "py_float s = Inr x"
  shows "nonneg_float x"
proof -
  obtain t where t: "drop_underscores (CHR '' '') (strip_with is_ascii_space (to_ascii s)) = Some t"
    using assms(2) by (auto simp: py_float_def split: option.splits)
  have "CHR ''-'' \<notin> set t"
    using drop_underscores_subset [OF t] to_ascii_no_minus [OF assms(1)]
      strip_with_subset [of is_ascii_space "to_ascii s"] by auto
  then have "fst (split_sign t) = False"
    by (rule split_sign_no_minus)
  then obtain body where sp: "split_sign t = (False, body)"
    by (cases "split_sign t") auto
  show ?thesis
  proof (cases "parse_decimal body")
    case (Some q)
    then have "x = round_double q"
      using assms(2) by (simp add: py_float_def t sp)
    then show ?thesis
      using parse_decimal_nonneg [OF Some] by (simp add: round_double_nonneg_float)
  next
    case None
    then have "parse_inf_or_nan False body = Some x"
      using assms(2) by (simp add: py_float_def t sp split: option.splits)
    then show ?thesis by (rule parse_inf_or_nan_nonneg)
  qed
qed

lemma int_truediv_nonneg:
  assumes "0 \<le> n" and "0 < d" and "int_truediv n d = Inr x"
  shows "nonneg_float x"
proof -
  have q: "(0::rat) \<le> of_int n / of_int d"
    using assms(1,2) by simp
  from assms(3) obtain r where "round_double (of_int n / of_int d) = Finite r" and "x = Finite r"
    by (auto simp: int_truediv_def split: pyfloat.splits if_splits)
  then show ?thesis
    using round_double_nonneg [OF q] by (simp add: nonneg_float_def)
qed

lemma int_div_trunc_nonneg:
  assumes "CHR ''-'' \<notin> set s" and "0 < d" and "int_div_trunc s d = Inr v"
  shows "0 \<le> v"
proof -
  from assms(3) obtain n x where n: "py_int s = Inr n" and x: "int_truediv n d = Inr x"
    and v: "int_of_float x = Inr v"
    by (auto simp: int_div_trunc_def bind_exn_def split: sum.splits)
  have "0 \<le> n"
    using assms(1) n by (rule py_int_nonneg)
  then have "nonneg_float x"
    using assms(2) x by (rule int_truediv_nonneg)
  then show ?thesis
    using v by (rule int_of_float_nonneg)
qed

lemma int_times_nonneg:
  assumes "CHR ''-'' \<notin> set s" and "0 < k" and "int_times s k = Inr v"
  shows "0 \<le> v"
proof -
  from assms(3) obtain n where n: "py_int s = Inr n" and v: "v = n * k"
    by (auto simp: int_times_def bind_exn_def split: sum.splits)
  have "0 \<le> n"
    using assms(1) n by (rule py_int_nonneg)
  then show ?thesis
    using assms(2) v by simp
qed

lemma no_minus_strip: "CHR ''-'' \<notin> set s \<Longrightarrow> CHR ''-'' \<notin> set (strip s)"
  using strip_with_subset [of is_unicode_space s] by (auto simp: strip_def)

lemma no_minus_drop_last: "CHR ''-'' \<notin> set s \<Longrightarrow> CHR ''-'' \<notin> set (drop_last k s)"
  using drop_last_subset [of k s] by auto

lemma parse_cpu_nonneg:
  assumes "CHR ''-'' \<notin> set s" and "parse_cpu_to_millicores s = Inr v"
  shows "0 \<le> v"
proof (cases "s = [] \<or> s = ''0''")
  case True
  with assms(2) show ?thesis
    unfolding parse_cpu_to_millicores_def by auto
next
  case False
  show ?thesis
  proof (cases "endswith s ''m''")
    case True
    with False assms(2) have "py_int (drop_last 1 s) = Inr v"
      unfolding parse_cpu_to_millicores_def by simp
    with no_minus_drop_last [OF assms(1)] show ?thesis by (rule py_int_nonneg)
  next
    case nom: False
    with False assms(2)
    have "bind_exn (py_float s) (\<lambda>x. int_of_float (float_mul_int x 1000)) = Inr v"
      unfolding parse_cpu_to_millicores_def by simp
    then obtain x where x: "py_float s = Inr x" and v: "int_of_float (float_mul_int x 1000) = Inr v"
      by (auto simp: bind_exn_def split: sum.splits)
    have "nonneg_float x"
      using assms(1) x by (rule py_float_nonneg)
    then have "nonneg_float (float_mul_int x 1000)"
      by (rule float_mul_int_nonneg) simp
    then show ?thesis
      using v by (rule int_of_float_nonneg)
  qed
qed

lemma suffix_parse_nonneg:
  assumes "CHR ''-'' \<notin> set t"
    and "0 < a" and "0 < c" and "0 < d" and "0 < e"
    and "(if endswith t ''Ki'' then int_div_trunc (drop_last 2 t) a
          else if endswith t ''Mi'' then f (drop_last 2 t)
          else if endswith t ''Gi'' then g (drop_last 2 t)
          else if endswith t ''Ti'' then int_times (drop_last 2 t) d
          else int_div_trunc t e) = Inr v"
    and "f = py_int \<or> f = (\<lambda>u. int_div_trunc u c)"
    and "g = py_int \<or> g = (\<lambda>u. int_times u c)"
  shows "0 \<le> v"
proof -
  note b = no_minus_drop_last [OF assms(1), of 2]
  have F: "f (drop_last 2 t) = Inr v \<Longrightarrow> 0 \<le> v"
    using assms(7) py_int_nonneg [OF b] int_div_trunc_nonneg [OF b assms(3)] by blast
  have G: "g (drop_last 2 t) = Inr v \<Longrightarrow> 0 \<le> v"
    using assms(8) py_int_nonneg [OF b] int_times_nonneg [OF b assms(3)] by blast
  show ?thesis
  proof (cases "endswith t ''Ki''")
    case True
    with assms(6) have "int_div_trunc (drop_last 2 t) a = Inr v" by simp
    with b assms(2) show ?thesis by (rule int_div_trunc_nonneg)
  next
    case ki: False
    show ?thesis
    proof (cases "endswith t ''Mi''")
      case True
      with ki assms(6) have "f (drop_last 2 t) = Inr v" by simp
      then show ?thesis by (rule F)
    next
      case mi: False
      show ?thesis
      proof (cases "endswith t ''Gi''")
        case True
        with ki mi assms(6) have "g (drop_last 2 t) = Inr v" by simp
        then show ?thesis by (rule G)
      next
        case gi: False
        show ?thesis
        proof (cases "endswith t ''Ti''")
          case True
          with ki mi gi assms(6) have "int_times (drop_last 2 t) d = Inr v" by simp
          with b assms(4) show ?thesis by (rule int_times_nonneg)
        next
          case False
          with ki mi gi assms(6) have "int_div_trunc t e = Inr v" by simp
          with assms(1,5) show ?thesis by (rule int_div_trunc_nonneg)
        qed
      qed
    qed
  qed
qed

lemma parse_memory_nonneg:
  assumes "CHR ''-'' \<notin> set s" and "parse_memory_to_mi s = Inr v"
  shows "0 \<le> v"
proof (cases "s = [] \<or> s = ''0''")
  case True
  with assms(2) show ?thesis
    unfolding parse_memory_to_mi_def by auto
next
  case False
  with assms(2) show ?thesis
    unfolding parse_memory_to_mi_def Let_def
    by (intro suffix_parse_nonneg [OF no_minus_strip [OF assms(1)], where f = py_int
          and g = "\<lambda>u. int_times u 1024" and c = 1024 and a = 1024 and d = "1024 * 1024"
          and e = "1024 * 1024"]) simp_all
qed

lemma parse_storage_nonneg:
  assumes "CHR ''-'' \<notin> set s" and "parse_storage_to_gi s = Inr v"
  shows "0 \<le> v"
proof (cases "s = [] \<or> s = ''0''")
  case True
  with assms(2) show ?thesis
    unfolding parse_storage_to_gi_def by auto
next
  case False
  with assms(2) show ?thesis
    unfolding parse_storage_to_gi_def Let_def
    by (intro suffix_parse_nonneg [OF no_minus_strip [OF assms(1)], where g = py_int
          and f = "\<lambda>u. int_div_trunc u 1024" and c = 1024 and a = "1024 * 1024" and d = 1024
          and e = "1024 * 1024 * 1024"]) simp_all
qed






lemma cpu_500m: "parse_cpu_to_millicores ''500m'' = Inr 500"
  by code_simp

lemma cpu_1: "parse_cpu_to_millicores ''1'' = Inr 1000"
  by code_simp

lemma cpu_0: "parse_cpu_to_millicores ''0'' = Inr 0"
  by (simp add: parse_cpu_to_millicores_def)

lemma cpu_empty: "parse_cpu_to_millicores [] = Inr 0"
  by (simp add: parse_cpu_to_millicores_def)

lemma cpu_bogus: "parse_cpu_to_millicores ''bogus'' = Inl ValueError"
  by code_simp

lemma memory_2Gi: "parse_memory_to_mi ''2Gi'' = Inr 2048"
  by code_simp

lemma memory_1000Ki: "parse_memory_to_mi ''1000Ki'' = Inr 0"
  by code_simp

lemma memory_512Mi: "parse_memory_to_mi ''512Mi'' = Inr 512"
  by code_simp

lemma storage_1024Mi: "parse_storage_to_gi ''1024Mi'' = Inr 1"
  by code_simp

lemma storage_10Gi: "parse_storage_to_gi ''10Gi'' = Inr 10"
  by code_simp

lemma cpu_minus_5m: "parse_cpu_to_millicores ''-5m'' = Inr (- 5)"
  by code_simp

lemma memory_minus_2Gi: "parse_memory_to_mi ''-2Gi'' = Inr (- 2048)"
  by code_simp

lemma storage_minus_1Gi: "parse_storage_to_gi ''-1Gi'' = Inr (- 1)"
  by code_simp

text \<open>
  C8. The parsers on the sample strings of the specification: \<open>500m\<close> is 500 millicores,
  \<open>1\<close> is 1000, \<open>0\<close> and the empty string are 0, \<open>bogus\<close> raises (the \<open>ValueError\<close> of
  \<open>float\<close> is the parse error); \<open>2Gi\<close> is 2048 MiB, \<open>1000Ki\<close> is 0, \<open>512Mi\<close> is 512;
  \<open>1024Mi\<close> is 1 GiB and \<open>10Gi\<close> is 10.
\<close>

theorem parser_examples:
  "parse_cpu_to_millicores ''500m'' = Inr 500 \<and>
   parse_cpu_to_millicores ''1'' = Inr 1000 \<and>
   parse_cpu_to_millicores ''0'' = Inr 0 \<and>
   parse_cpu_to_millicores [] = Inr 0 \<and>
   parse_cpu_to_millicores ''bogus'' = Inl ValueError \<and>
   parse_memory_to_mi ''2Gi'' = Inr 2048 \<and>
   parse_memory_to_mi ''1000Ki'' = Inr 0 \<and>
   parse_memory_to_mi ''512Mi'' = Inr 512 \<and>
   parse_storage_to_gi ''1024Mi'' = Inr 1 \<and>
   parse_storage_to_gi ''10Gi'' = Inr 10"
  by (simp only: cpu_500m cpu_1 cpu_0 cpu_empty cpu_bogus memory_2Gi memory_1000Ki memory_512Mi
      storage_1024Mi storage_10Gi simp_thms)

text \<open>
  C4, as stated, fails: a minus sign in front of the digits is accepted by \<open>int\<close> and
  \<open>float\<close>, so \<open>-5m\<close> is \<open>-5\<close> millicores, \<open>-2Gi\<close> is \<open>-2048\<close> MiB and \<open>-1Gi\<close> is
  \<open>-1\<close> GiB: a negative value, not a parse error.
\<close>

theorem negative_prefix_parses:
  "parse_cpu_to_millicores ''-5m'' = Inr (- 5) \<and>
   parse_memory_to_mi ''-2Gi'' = Inr (- 2048) \<and>
   parse_storage_to_gi ''-1Gi'' = Inr (- 1)"
  by (simp only: cpu_minus_5m memory_minus_2Gi storage_minus_1Gi simp_thms)

text \<open>
  C4, amended. For every input string that holds no minus sign, a parser that succeeds returns
  a non-negative scalar.
\<close>

theorem parsers_nonneg_without_minus:
  assumes "CHR ''-'' \<notin> set s"
  shows "(parse_cpu_to_millicores s = Inr v \<longrightarrow> 0 \<le> v) \<and>
         (parse_memory_to_mi s = Inr v \<longrightarrow> 0 \<le> v) \<and>
         (parse_storage_to_gi s = Inr v \<longrightarrow> 0 \<le> v)"
  using parse_cpu_nonneg [OF assms] parse_memory_nonneg [OF assms] parse_storage_nonneg [OF assms]
  by blast

theorem parsers_nonneg_without_minus_witness:
  "CHR ''-'' \<notin> set ''500m'' \<and> parse_cpu_to_millicores ''500m'' = Inr 500 \<and> (0::int) \<le> 500"
  using parsers_nonneg_without_minus [of "''500m''" 500] by (simp add: cpu_500m)

subsection \<open>The monad of effects\<close>

lemma bind_io_Inr: "m w = (Inr x, w') \<Longrightarrow> bind_io m f w = f x w'"
  by (simp add: bind_io_def)

lemma bind_io_Inl: "m w = (Inl e, w') \<Longrightarrow> bind_io m f w = (Inl e, w')"
  by (simp add: bind_io_def)

lemma catch_io_Inr: "m w = (Inr x, w') \<Longrightarrow> catch_io m h w = (Inr x, w')"
  by (simp add: catch_io_def)

lemma catch_io_Inl: "m w = (Inl e, w') \<Longrightarrow> catch_io m h w = h e w'"
  by (simp add: catch_io_def)

subsection \<open>Integers that can be formatted\<close>

lemma show_nat_length: "n < 10 ^ k \<Longrightarrow> 0 < k \<Longrightarrow> length (show_nat n) \<le> k"
proof (induction n arbitrary: k rule: show_nat.induct)
  case (1 n)
  show ?case
  proof (cases "n < 10")
    case True
    with 1(3) show ?thesis
      by (simp add: show_nat.simps [of n])
  next
    case False
    obtain j where k: "k = Suc j"
      using 1(3) by (cases k) auto
    from False 1(2) k have j: "0 < j"
      by (cases j) auto
    from 1(2) k have "n div 10 < 10 ^ j"
      by (simp add: less_mult_imp_div_less mult.commute)
    from 1(1) [OF False this j] False k show ?thesis
      by (simp add: show_nat.simps [of n])
  qed
qed

lemma abs_digits:
  assumes "\<bar>i\<bar> < 10 ^ k" and "0 < k"
  shows "length (show_nat (nat \<bar>i\<bar>)) \<le> k"
proof -
  from assms(1) have "nat \<bar>i\<bar> < 10 ^ k"
    by (simp add: nat_less_iff)
  from show_nat_length [OF this assms(2)] show ?thesis .
qed





lemma small_within_str_digits: "\<bar>i\<bar> < 10000 \<Longrightarrow> within_str_digits i"
proof -
  assume "\<bar>i\<bar> < 10000"
  then have "\<bar>i\<bar> < 10 ^ 4"
    by simp
  from abs_digits [OF this] show ?thesis
    by (simp add: within_str_digits_def)
qed

lemma str_int_small: "\<bar>i\<bar> < 10000 \<Longrightarrow> str_int i = Inr (show_int i)"
  by (simp add: str_int_def small_within_str_digits)

subsection \<open>Capacity snapshot and admission\<close>

lemma sample_node_triple:
  "parse_triple (allocatable sample_node) =
     Inr \<lparr>cpu_millicores = 4000, memory_mi = 8192, storage_gi = 100\<rparr>"
  by code_simp

lemma ensure_k8s_fresh:
  "kube_init E 0 = None \<Longrightarrow> ensure_k8s E fresh_world = (Inr (), fresh_world\<lparr>clock := 1, k8s_v1 := True\<rparr>)"
  by (simp add: ensure_k8s_def fresh_world_def)

lemma get_cluster_resources_unfold:
  assumes "ensure_k8s E w = (Inr (), w1)"
  shows "get_cluster_resources E w =
     (case api_list_node E (clock w1) of
        Inl e \<Rightarrow> (Inl e, w1\<lparr>clock := Suc (clock w1)\<rparr>)
      | Inr [] \<Rightarrow> (Inl (RuntimeError ''No nodes found in cluster''), w1\<lparr>clock := Suc (clock w1)\<rparr>)
      | Inr (node # rest) \<Rightarrow>
          (case parse_triple (allocatable node) of
             Inl e \<Rightarrow> (Inl e, w1\<lparr>clock := Suc (clock w1)\<rparr>)
           | Inr tot \<Rightarrow>
               (case api_list_pod_for_all_namespaces E (Suc (clock w1)) of
                  Inl e \<Rightarrow> (Inl e, w1\<lparr>clock := Suc (Suc (clock w1))\<rparr>)
                | Inr pods \<Rightarrow>
                    (case used_by_pods zero_triple pods of
                       Inl e \<Rightarrow> (Inl e, w1\<lparr>clock := Suc (Suc (clock w1))\<rparr>)
                     | Inr usd \<Rightarrow>
                         (Inr \<lparr>total = tot, used = usd, available = sub_triple tot usd\<rparr>,
                          w1\<lparr>clock := Suc (Suc (clock w1))\<rparr>)))))"
  by (simp add: get_cluster_resources_def bind_io_def assms external_def raise_io_def lift_io_def
      return_io_def split: sum.splits list.splits)

lemma get_cluster_resources_no_client:
  "ensure_k8s E w = (Inl e, w1) \<Longrightarrow> get_cluster_resources E w = (Inl e, w1)"
  by (simp add: get_cluster_resources_def bind_io_def)

lemma add_zero_triple: "add_triple t zero_triple = t"
  by (simp add: add_triple_def zero_triple_def)

text \<open>
  C2, as stated, fails on a cluster of two nodes: the total is the allocatable of the first
  node, not the sum over both.
\<close>

theorem total_is_not_the_sum:
  "fst (get_cluster_resources two_node_env fresh_world) =
     Inr \<lparr>total = \<lparr>cpu_millicores = 4000, memory_mi = 8192, storage_gi = 100\<rparr>,
          used = \<lparr>cpu_millicores = 0, memory_mi = 0, storage_gi = 0\<rparr>,
          available = \<lparr>cpu_millicores = 4000, memory_mi = 8192, storage_gi = 100\<rparr>\<rparr> \<and>
   spec_total [sample_node, sample_node] =
     Inr \<lparr>cpu_millicores = 8000, memory_mi = 16384, storage_gi = 200\<rparr>"
proof -
  have e: "ensure_k8s two_node_env fresh_world = (Inr (), fresh_world\<lparr>clock := 1, k8s_v1 := True\<rparr>)"
    by (rule ensure_k8s_fresh) (simp add: two_node_env_def quiet_env_def)
  show ?thesis
    unfolding get_cluster_resources_unfold [OF e]
    by (simp add: two_node_env_def quiet_env_def fresh_world_def
        sample_node_triple zero_triple_def sub_triple_def add_triple_def bind_exn_def)
qed

text \<open>
  C2, amended. The total of a snapshot is the parsed allocatable cpu, memory and storage of the
  first node the cluster interface returns (the sum over all nodes when there is one node).
  The computation fails instead of returning a capacity when the client cannot be set up (a
  \<open>RuntimeError\<close>), when the node list cannot be obtained (the error of the call), and when
  the node list is empty (a \<open>RuntimeError\<close>).
\<close>

theorem total_is_first_node:
  "(\<forall>e w1. ensure_k8s E w = (Inl e, w1) \<longrightarrow> fst (get_cluster_resources E w) = Inl e) \<and>
   (\<forall>w1. ensure_k8s E w = (Inr (), w1) \<longrightarrow>
      (\<forall>e. api_list_node E (clock w1) = Inl e \<longrightarrow> fst (get_cluster_resources E w) = Inl e) \<and>
      (api_list_node E (clock w1) = Inr [] \<longrightarrow>
         fst (get_cluster_resources E w) = Inl (RuntimeError ''No nodes found in cluster'')) \<and>
      (\<forall>rs. fst (get_cluster_resources E w) = Inr rs \<longrightarrow>
         (\<exists>node rest. api_list_node E (clock w1) = Inr (node # rest) \<and>
            parse_triple (allocatable node) = Inr (total rs) \<and>
            (rest = [] \<longrightarrow> spec_total (node # rest) = Inr (total rs)))))"
proof (intro conjI allI impI)
  fix e w1
  assume "ensure_k8s E w = (Inl e, w1)"
  then show "fst (get_cluster_resources E w) = Inl e"
    by (simp add: get_cluster_resources_no_client)
next
  fix w1 e
  assume "ensure_k8s E w = (Inr (), w1)" and "api_list_node E (clock w1) = Inl e"
  then show "fst (get_cluster_resources E w) = Inl e"
    by (simp add: get_cluster_resources_unfold)
next
  fix w1
  assume "ensure_k8s E w = (Inr (), w1)" and "api_list_node E (clock w1) = Inr []"
  then show "fst (get_cluster_resources E w) = Inl (RuntimeError ''No nodes found in cluster'')"
    by (simp add: get_cluster_resources_unfold)
next
  fix w1 rs
  assume k: "ensure_k8s E w = (Inr (), w1)" and r: "fst (get_cluster_resources E w) = Inr rs"
  from r obtain node rest where n: "api_list_node E (clock w1) = Inr (node # rest)"
    and t: "parse_triple (allocatable node) = Inr (total rs)"
    unfolding get_cluster_resources_unfold [OF k]
    by (auto split: sum.splits list.splits)
  have "rest = [] \<longrightarrow> spec_total (node # rest) = Inr (total rs)"
    by (simp add: t bind_exn_def add_zero_triple)
  with n t show "\<exists>node rest. api_list_node E (clock w1) = Inr (node # rest) \<and>
      parse_triple (allocatable node) = Inr (total rs) \<and>
      (rest = [] \<longrightarrow> spec_total (node # rest) = Inr (total rs))"
    by blast
qed

theorem total_is_first_node_witness:
  "ensure_k8s quiet_env fresh_world = (Inr (), fresh_world\<lparr>clock := 1, k8s_v1 := True\<rparr>) \<and>
   api_list_node quiet_env 1 = Inr [sample_node] \<and>
   (\<exists>rs. fst (get_cluster_resources quiet_env fresh_world) = Inr rs \<and>
         parse_triple (allocatable sample_node) = Inr (total rs) \<and>
         spec_total [sample_node] = Inr (total rs))"
proof -
  have e: "ensure_k8s quiet_env fresh_world = (Inr (), fresh_world\<lparr>clock := 1, k8s_v1 := True\<rparr>)"
    by (rule ensure_k8s_fresh) (simp add: quiet_env_def)
  have n: "api_list_node quiet_env 1 = Inr [sample_node]"
    by (simp add: quiet_env_def)
  obtain rs where rs: "fst (get_cluster_resources quiet_env fresh_world) = Inr rs"
    unfolding get_cluster_resources_unfold [OF e]
    by (simp add: quiet_env_def fresh_world_def sample_node_triple zero_triple_def)
  from total_is_first_node [of quiet_env fresh_world] e rs
  obtain node rest where "api_list_node quiet_env (clock (fresh_world\<lparr>clock := 1, k8s_v1 := True\<rparr>)) = Inr (node # rest)"
    and "parse_triple (allocatable node) = Inr (total rs)"
    and "rest = [] \<longrightarrow> spec_total (node # rest) = Inr (total rs)"
    by blast
  with n have "parse_triple (allocatable sample_node) = Inr (total rs)"
    and "spec_total [sample_node] = Inr (total rs)"
    by simp_all
  with e n rs show ?thesis by blast
qed

lemma check_unfold:
  "check_resources_available E c m s w =
     (case get_cluster_resources E (w\<lparr>trace := trace w @ [Admission_check c m s]\<rparr>) of
        (Inl e, w1) \<Rightarrow> (Inr \<lparr>is_available = False, message = Failed_to_check e, details = None\<rparr>, w1)
      | (Inr rs, w1) \<Rightarrow>
          (case decide (available rs) c m s of
             Inl e \<Rightarrow> (Inr \<lparr>is_available = False, message = Failed_to_check e, details = None\<rparr>, w1)
           | Inr d \<Rightarrow> (Inr d, w1)))"
  by (simp add: check_resources_available_def bind_io_def log_event_def catch_io_def lift_io_def
      return_io_def split: prod.splits sum.splits)






lemma quiet_snapshot:
  "get_cluster_resources quiet_env (fresh_world\<lparr>trace := trace fresh_world @ evs\<rparr>) =
     (Inr \<lparr>total = \<lparr>cpu_millicores = 4000, memory_mi = 8192, storage_gi = 100\<rparr>,
           used = \<lparr>cpu_millicores = 0, memory_mi = 0, storage_gi = 0\<rparr>,
           available = \<lparr>cpu_millicores = 4000, memory_mi = 8192, storage_gi = 100\<rparr>\<rparr>,
      fresh_world\<lparr>clock := 3, k8s_v1 := True, trace := evs\<rparr>)"
proof -
  have e: "ensure_k8s quiet_env (fresh_world\<lparr>trace := trace fresh_world @ evs\<rparr>) =
      (Inr (), fresh_world\<lparr>clock := 1, k8s_v1 := True, trace := evs\<rparr>)"
    by (simp add: ensure_k8s_def fresh_world_def quiet_env_def)
  show ?thesis
    unfolding get_cluster_resources_unfold [OF e]
    by (simp add: quiet_env_def fresh_world_def sample_node_triple zero_triple_def sub_triple_def
        numeral_3_eq_3)
qed





lemma request_8_cores: "int_of_float (float_mul_int (Finite 8) 1000) = Inr 8000"
  by code_simp


text \<open>
  C6. The admission check returns a decision for every input, in every environment and world:
  no exception leaves it. When the snapshot cannot be obtained the decision is a rejection
  whose message is the one entry that describes the failure, with no details.
\<close>

theorem admission_never_raises:
  "\<exists>d. fst (check_resources_available E c m s w) = Inr d \<and>
       (\<forall>e w1. get_cluster_resources E (w\<lparr>trace := trace w @ [Admission_check c m s]\<rparr>) = (Inl e, w1)
          \<longrightarrow> d = \<lparr>is_available = False, message = Failed_to_check e, details = None\<rparr>)"
  by (auto simp: check_unfold split: prod.splits sum.splits)

lemma no_config_snapshot:
  "get_cluster_resources no_config_env (fresh_world\<lparr>trace := trace fresh_world @ evs\<rparr>) =
     (Inl (RuntimeError ''could not load kube config''), fresh_world\<lparr>clock := 1, trace := evs\<rparr>)"
proof -
  have e: "ensure_k8s no_config_env (fresh_world\<lparr>trace := trace fresh_world @ evs\<rparr>) =
      (Inl (RuntimeError ''could not load kube config''), fresh_world\<lparr>clock := 1, trace := evs\<rparr>)"
    by (simp add: ensure_k8s_def fresh_world_def no_config_env_def quiet_env_def)
  then show ?thesis
    by (rule get_cluster_resources_no_client)
qed

theorem admission_never_raises_witness:
  "fst (check_resources_available no_config_env (Finite (1 / 2)) 512 1 fresh_world) =
     Inr \<lparr>is_available = False,
          message = Failed_to_check (RuntimeError ''could not load kube config''),
          details = None\<rparr>"
proof -
  from admission_never_raises [of no_config_env "Finite (1 / 2)" 512 1 fresh_world]
  obtain d where "fst (check_resources_available no_config_env (Finite (1 / 2)) 512 1 fresh_world) = Inr d"
    and "\<forall>e w1. get_cluster_resources no_config_env
            (fresh_world\<lparr>trace := trace fresh_world @ [Admission_check (Finite (1 / 2)) 512 1]\<rparr>) = (Inl e, w1)
          \<longrightarrow> d = \<lparr>is_available = False, message = Failed_to_check e, details = None\<rparr>"
    by blast
  then show ?thesis
    using no_config_snapshot [of "[Admission_check (Finite (1 / 2)) 512 1]"] by simp
qed

lemma ensure_k8s_students: "ensure_k8s E w = (r, w1) \<Longrightarrow> students w1 = students w"
  by (auto simp: ensure_k8s_def split: if_splits option.splits)

lemma get_cluster_resources_students:
  assumes "get_cluster_resources E w = (r, w1)"
  shows "students w1 = students w"
proof -
  obtain r0 w0 where e: "ensure_k8s E w = (r0, w0)"
    by (cases "ensure_k8s E w")
  note s = ensure_k8s_students [OF e]
  show ?thesis
  proof (cases r0)
    case (Inl x)
    with e assms s show ?thesis
      by (simp add: get_cluster_resources_no_client)
  next
    case (Inr u)
    with e have "ensure_k8s E w = (Inr (), w0)" by simp
    from assms [unfolded get_cluster_resources_unfold [OF this]] s show ?thesis
      by (auto split: sum.splits list.splits)
  qed
qed

lemma check_students:
  assumes "check_resources_available E c m s w = (r, w1)"
  shows "students w1 = students w"
proof -
  obtain r0 w0 where g: "get_cluster_resources E (w\<lparr>trace := trace w @ [Admission_check c m s]\<rparr>) = (r0, w0)"
    by (cases "get_cluster_resources E (w\<lparr>trace := trace w @ [Admission_check c m s]\<rparr>)")
  from get_cluster_resources_students [OF g] have "students w0 = students w"
    by simp
  with assms g show ?thesis
    by (auto simp: check_unfold split: sum.splits)
qed

lemma submit_rejected:
  assumes "check_resources_available E (spec_cpu spec) (spec_memory spec) (spec_storage spec) w = (Inr d, w1)"
    and "\<not> is_available d"
  shows "submit E spec w = (Inl (HTTPException 400 Insufficient_resources), w1) \<and>
         students w1 = students w"
  using assms check_students [OF assms(1)]
  by (simp add: submit_def bind_io_def raise_io_def)

lemma available_4_cores: "int_truediv 4000 1000 = Inr (Finite 4)"
  by code_simp

lemma decide_bob:
  "(case decide \<lparr>cpu_millicores = 4000, memory_mi = 8192, storage_gi = 100\<rparr> (Finite 8) 512 200 of
      Inl e \<Rightarrow> True | Inr d \<Rightarrow> is_available d) = False"
  by (simp add: decide_def bind_exn_def request_8_cores available_4_cores str_int_small)

lemma check_bob:
  "\<exists>d. check_resources_available quiet_env (Finite 8) 512 200 fresh_world =
         (Inr d, fresh_world\<lparr>clock := 3, k8s_v1 := True, trace := [Admission_check (Finite 8) 512 200]\<rparr>) \<and>
       \<not> is_available d"
  using decide_bob by (simp add: check_unfold quiet_snapshot split: sum.splits)

subsection \<open>What a run adds to the log\<close>

lemma emitsI:
  assumes "\<And>w. \<exists>evs. trace (snd (m w)) = trace w @ evs \<and> list_all P evs"
  shows "emits P m"
  using assms by (simp add: emits_def)

lemma emitsD:
  assumes "emits P m"
  obtains evs where "trace (snd (m w)) = trace w @ evs" and "list_all P evs"
  using assms by (auto simp: emits_def)

lemma emits_new_events: "emits P m \<Longrightarrow> list_all P (new_events w (snd (m w)))"
  by (erule emitsD [of P m w]) (simp add: new_events_def)

lemma emits_return [intro!]: "emits P (return_io x)"
  by (simp add: emits_def return_io_def)

lemma emits_raise [intro!]: "emits P (raise_io e)"
  by (simp add: emits_def raise_io_def)

lemma emits_lift [intro!]: "emits P (lift_io r)"
  by (simp add: emits_def lift_io_def)

lemma emits_bind [intro!]:
  assumes "emits P m" and "\<And>x. emits P (f x)"
  shows "emits P (bind_io m f)"
proof (rule emitsI)
  fix w
  obtain r w1 where m: "m w = (r, w1)" by (cases "m w")
  from assms(1) obtain evs1 where e1: "trace w1 = trace w @ evs1" and p1: "list_all P evs1"
    using m by (auto elim: emitsD [of P m w])
  show "\<exists>evs. trace (snd (bind_io m f w)) = trace w @ evs \<and> list_all P evs"
  proof (cases r)
    case (Inl e)
    with m e1 p1 show ?thesis by (simp add: bind_io_def)
  next
    case (Inr x)
    from assms(2) [of x] obtain evs2 where "trace (snd (f x w1)) = trace w1 @ evs2" and "list_all P evs2"
      by (auto elim: emitsD [of P "f x" w1])
    with Inr m e1 p1 show ?thesis by (simp add: bind_io_def)
  qed
qed

lemma emits_catch [intro!]:
  assumes "emits P m" and "\<And>e. emits P (h e)"
  shows "emits P (catch_io m h)"
proof (rule emitsI)
  fix w
  obtain r w1 where m: "m w = (r, w1)" by (cases "m w")
  from assms(1) obtain evs1 where e1: "trace w1 = trace w @ evs1" and p1: "list_all P evs1"
    using m by (auto elim: emitsD [of P m w])
  show "\<exists>evs. trace (snd (catch_io m h w)) = trace w @ evs \<and> list_all P evs"
  proof (cases r)
    case (Inr x)
    with m e1 p1 show ?thesis by (simp add: catch_io_def)
  next
    case (Inl e)
    from assms(2) [of e] obtain evs2 where "trace (snd (h e w1)) = trace w1 @ evs2" and "list_all P evs2"
      by (auto elim: emitsD [of P "h e" w1])
    with Inl m e1 p1 show ?thesis by (simp add: catch_io_def)
  qed
qed

lemma emits_external [intro!]: "list_all P evs \<Longrightarrow> emits P (external evs f)"
  by (simp add: emits_def external_def)

lemma emits_log_event [intro!]: "P ev \<Longrightarrow> emits P (log_event ev)"
  by (simp add: emits_def log_event_def)

lemma emits_mongo [intro!]: "list_all P evs \<Longrightarrow> emits P (mongo E evs f)"
  by (auto simp: emits_def mongo_def split: option.splits)

lemma emits_ensure_k8s [intro!]: "emits P (ensure_k8s E)"
  by (auto simp: emits_def ensure_k8s_def split: option.splits)

lemma emits_on_api_status [intro!]: "emits P (on_api_status code x e)"
  by (cases e) (auto simp: on_api_status_def)

lemma emits_if [intro!]: "emits P a \<Longrightarrow> emits P b \<Longrightarrow> emits P (if c then a else b)"
  by simp

lemma emits_get_pod_status [intro!]: "emits P (get_pod_status E ns n)"
  unfolding get_pod_status_def by (intro emits_bind emits_catch emits_external emits_ensure_k8s emits_on_api_status) simp

lemma emits_create_namespace [intro!]: "P (Create_namespace ns) \<Longrightarrow> emits P (create_namespace E ns)"
  unfolding create_namespace_def by (intro emits_bind emits_catch emits_external emits_ensure_k8s emits_on_api_status) simp

lemma emits_create_pod [intro!]:
  "(\<And>m. P (Create_pod ns m)) \<Longrightarrow> emits P (create_pod E ns n img c mem s)"
  unfolding create_pod_def Let_def
  by (intro emits_bind emits_lift emits_catch emits_external emits_ensure_k8s emits_on_api_status)
    simp

lemma emits_get_cluster_resources [intro!]: "emits P (get_cluster_resources E)"
  unfolding get_cluster_resources_def
  by (auto intro!: emits_bind split: list.splits)

lemma emits_update_student_status [intro!]:
  "P (Db_status n st err) \<Longrightarrow> emits P (update_student_status E n st err)"
  unfolding update_student_status_def by (intro emits_mongo) simp

lemma emits_save_or_update_student [intro!]:
  "(\<And>d. P (Db_save d)) \<Longrightarrow> emits P (save_or_update_student E doc st)"
  unfolding save_or_update_student_def by (intro emits_mongo) simp

lemma emits_get_student [intro!]: "emits P (get_student E n)"
  unfolding get_student_def by (intro emits_mongo) simp

lemma emits_list_students [intro!]: "emits P (list_students E)"
  unfolding list_students_def by (intro emits_mongo) simp

lemma emits_provision [intro!]:
  assumes "P (Create_namespace n)" and "\<And>m. P (Create_pod n m)" and "\<And>st err. P (Db_status n st err)"
  shows "emits P (provision E n c m s)"
  unfolding provision_def using assms by (intro emits_bind emits_catch) auto

lemma emits_catch_runtime_error [intro!]:
  assumes "emits P m" and "\<And>e. emits P (h e)"
  shows "emits P (catch_runtime_error m h)"
  unfolding catch_runtime_error_def using assms
  by (intro emits_catch) (auto split: exn.splits)

lemma emits_check_resources_available:
  "P (Admission_check c m s) \<Longrightarrow> emits P (check_resources_available E c m s)"
  unfolding check_resources_available_def by (intro emits_bind emits_catch) auto

lemma deploy_checks_nothing: "emits (\<lambda>ev. \<not> is_admission_check ev) (deploy E spec)"
  unfolding deploy_def by (intro emits_bind emits_if) auto

lemma deploy_from_db_checks_nothing: "emits (\<lambda>ev. \<not> is_admission_check ev) (deploy_from_db E name)"
  unfolding deploy_from_db_def Let_def
  by (intro emits_bind) (auto split: option.splits)

lemma starts_with_log:
  assumes "\<And>x. emits (\<lambda>ev. True) (g x)"
  shows "starts_with ev (bind_io (log_event ev) g)"
  unfolding starts_with_def
proof
  fix w :: world
  define w' where "w' = w\<lparr>trace := trace w @ [ev]\<rparr>"
  have t: "trace w' = trace w @ [ev]"
    by (simp add: w'_def)
  from assms [of "()"] obtain evs where "trace (snd (g () w')) = trace w' @ evs"
    unfolding emits_def by blast
  then have "trace (snd (g () w')) = trace w @ ev # evs"
    by (simp add: t)
  then show "\<exists>evs. trace (snd (bind_io (log_event ev) g w)) = trace w @ ev # evs"
    by (auto simp: bind_io_def log_event_def w'_def)
qed

lemma starts_with_bind:
  assumes "starts_with ev m" and "\<And>x. emits (\<lambda>ev. True) (f x)"
  shows "starts_with ev (bind_io m f)"
  unfolding starts_with_def
proof
  fix w
  obtain r w1 where m: "m w = (r, w1)" by (cases "m w")
  from assms(1) obtain evs1 where e1: "trace w1 = trace w @ ev # evs1"
    using m unfolding starts_with_def by (metis snd_conv)
  show "\<exists>evs. trace (snd (bind_io m f w)) = trace w @ ev # evs"
  proof (cases r)
    case (Inl e)
    with m e1 show ?thesis by (simp add: bind_io_def)
  next
    case (Inr x)
    from assms(2) [of x] obtain evs2 where "trace (snd (f x w1)) = trace w1 @ evs2"
      by (auto elim: emitsD)
    with Inr m e1 show ?thesis by (simp add: bind_io_def)
  qed
qed

lemma submit_checks_first: "starts_with (admission_of spec) (submit E spec)"
  unfolding submit_def admission_of_def check_resources_available_def
  by (intro starts_with_bind starts_with_log emits_bind emits_catch emits_if) auto

lemma admitted_first_seen: "admitted_first spec True evs"
  by (induction evs) auto

lemma starts_with_admitted:
  assumes "starts_with (admission_of spec) m"
  shows "admitted_first spec seen (new_events w (snd (m w)))"
proof -
  from assms obtain evs where "trace (snd (m w)) = trace w @ admission_of spec # evs"
    unfolding starts_with_def by blast
  then show ?thesis
    by (simp add: new_events_def admitted_first_seen)
qed


lemma half_core_rounds: "py_round (float_mul_int (Finite (1 / 2)) 1000) = Inr 500"
  by code_simp

lemma show_int_500: "show_int 500 = ''500''"
  by code_simp

lemma show_int_512: "show_int 512 = ''512''"
  by code_simp

lemma show_int_1: "show_int 1 = ''1''"
  by code_simp

lemma to_k8s_resources_alice:
  "to_k8s_resources alice = Inr [(''cpu'', ''500m''), (''memory'', ''512Mi''), (''storage'', ''1Gi'')]"
  by (simp add: to_k8s_resources_def alice_def float_less_one_def bind_exn_def half_core_rounds
      str_int_small show_int_500 show_int_512 show_int_1)

lemma to_persisted_doc_alice:
  "to_persisted_doc alice =
     Inr \<lparr>doc_name = ''alice'', input_numeric = Some (Finite (1 / 2), 512, 1),
          k8s_resources = Some [(''cpu'', ''500m''), (''memory'', ''512Mi''), (''storage'', ''1Gi'')],
          status = None, last_error = None\<rparr>"
  unfolding to_persisted_doc_def to_k8s_resources_alice
  by (simp add: bind_exn_def alice_def)

lemmas run_defs =
  bind_io_def catch_io_def return_io_def raise_io_def lift_io_def external_def log_event_def
  unit_result_def on_api_status_def ensure_k8s_def mongo_def

lemma deploy_alice_log:
  "new_events fresh_world (snd (deploy quiet_env alice fresh_world)) =
     [Db_save \<lparr>doc_name = ''alice'', input_numeric = Some (Finite (1 / 2), 512, 1),
          k8s_resources = Some [(''cpu'', ''500m''), (''memory'', ''512Mi''), (''storage'', ''1Gi'')],
          status = Some ''pending'', last_error = None\<rparr>,
      Create_namespace ''alice'',
      Create_pod ''alice'' \<lparr>manifest_name = ''alice-pod'', manifest_image = ''student-web:latest'',
          manifest_cpu = ''500m'', manifest_memory = ''512Mi'', manifest_storage = ''1Gi''\<rparr>,
      Db_status ''alice'' ''deployed'' None]"
  by (simp add: deploy_def provision_def get_pod_status_def create_namespace_def create_pod_def
      save_or_update_student_def update_student_status_def run_defs
      to_persisted_doc_alice to_k8s_resources_alice str_int_small show_int_1 dict_get_def
      new_events_def quiet_env_def fresh_world_def alice_def [THEN arg_cong, of spec_name]
      alice_def [THEN arg_cong, of spec_storage])

text \<open>
  C1, as stated, fails: \<open>deploy\<close> writes the document and creates the namespace and the pod
  of a spec with no admission check before.
\<close>

theorem deploy_without_admission:
  "\<not> admitted_first alice False (new_events fresh_world (snd (deploy quiet_env alice fresh_world)))"
  by (simp add: deploy_alice_log admission_of_def)

text \<open>
  C1, amended. In every run of \<open>submit\<close> the admission check of the spec's cpu, memory and
  storage comes before anything is persisted, and a check that rejects ends the run with a 400
  and every document as it was; \<open>deploy\<close> and \<open>deploy_from_db\<close> persist and deploy without
  running an admission check at all.
\<close>

theorem admission_only_in_submit:
  "admitted_first spec False (new_events w (snd (submit E spec w))) \<and>
   (\<forall>d w1. check_resources_available E (spec_cpu spec) (spec_memory spec) (spec_storage spec) w =
              (Inr d, w1) \<longrightarrow>
            \<not> is_available d \<longrightarrow>
            submit E spec w = (Inl (HTTPException 400 Insufficient_resources), w1) \<and>
            students w1 = students w) \<and>
   list_all (\<lambda>ev. \<not> is_admission_check ev) (new_events w (snd (deploy E spec w))) \<and>
   list_all (\<lambda>ev. \<not> is_admission_check ev) (new_events w (snd (deploy_from_db E name w)))"
  using starts_with_admitted [OF submit_checks_first] submit_rejected
    emits_new_events [OF deploy_checks_nothing] emits_new_events [OF deploy_from_db_checks_nothing]
  by blast

theorem admission_only_in_submit_witness:
  "fst (submit quiet_env bob fresh_world) = Inl (HTTPException 400 Insufficient_resources) \<and>
   students (snd (submit quiet_env bob fresh_world)) = students fresh_world"
proof -
  from check_bob obtain d
    where c: "check_resources_available quiet_env (spec_cpu bob) (spec_memory bob) (spec_storage bob)
        fresh_world =
          (Inr d, fresh_world\<lparr>clock := 3, k8s_v1 := True, trace := [Admission_check (Finite 8) 512 200]\<rparr>)"
      and r: "\<not> is_available d"
    by (auto simp: bob_def)
  from admission_only_in_submit [of bob fresh_world quiet_env] c r
  have "submit quiet_env bob fresh_world =
      (Inl (HTTPException 400 Insufficient_resources),
       fresh_world\<lparr>clock := 3, k8s_v1 := True, trace := [Admission_check (Finite 8) 512 200]\<rparr>)"
    by blast
  then show ?thesis by simp
qed

subsection \<open>Deploying\<close>

lemma get_pod_status_frame:
  assumes "get_pod_status E ns n w = (r, w1)"
  shows "students w1 = students w \<and> trace w1 = trace w \<and> files w1 = files w"
  using assms
  by (auto simp: get_pod_status_def run_defs split: if_splits option.splits sum.splits exn.splits)

lemma deploy_conflict:
  assumes "get_pod_status E (spec_name spec) (spec_name spec) w = (Inr ph, w1)"
    and "ph \<noteq> ''Not Found''"
  shows "deploy E spec w = (Inl (HTTPException 409 (Pod_exists ph)), w1)"
  using assms by (simp add: deploy_def bind_io_def raise_io_def)

lemma create_namespace_conflict:
  assumes "ensure_k8s E w = (Inr (), w1)"
    and "api_create_namespace E (clock w1) ns = Some (ApiException 409)"
  shows "fst (create_namespace E ns w) = Inr ()"
  using assms
  by (simp add: create_namespace_def bind_io_def catch_io_def external_def unit_result_def
      on_api_status_def return_io_def)

lemma create_pod_conflict:
  assumes "ensure_k8s E w = (Inr (), w1)"
    and "api_create_namespaced_pod E (clock w1) ns
           \<lparr>manifest_name = n @ ''-pod'', manifest_image = img, manifest_cpu = c,
            manifest_memory = m, manifest_storage = show_int s @ ''Gi''\<rparr> = Some (ApiException 409)"
  shows "fst (create_pod E ns n img c m s w) = (if within_str_digits s then Inr () else Inl ValueError)"
  using assms
  by (simp add: create_pod_def Let_def bind_io_def lift_io_def str_int_def catch_io_def external_def
      unit_result_def on_api_status_def return_io_def)

text \<open>
  C7. When the pod of the tenant is there in any phase other than \<open>Not Found\<close>, \<open>deploy\<close>
  answers 409 and has neither written a document nor logged a creation. A namespace creation
  and a pod creation that the cluster answers with 409 (already exists) return normally; the
  pod creation does so whenever its storage can be written in the manifest, that is, has at
  most 4300 digits, and raises \<open>ValueError\<close> otherwise.
\<close>

theorem conflict_rejected_and_create_idempotent:
  "(\<forall>ph w1. get_pod_status E (spec_name spec) (spec_name spec) w = (Inr ph, w1) \<longrightarrow>
      ph \<noteq> ''Not Found'' \<longrightarrow>
      deploy E spec w = (Inl (HTTPException 409 (Pod_exists ph)), w1) \<and>
      students w1 = students w \<and> trace w1 = trace w) \<and>
   (\<forall>w1. ensure_k8s E w = (Inr (), w1) \<longrightarrow>
      api_create_namespace E (clock w1) ns = Some (ApiException 409) \<longrightarrow>
      fst (create_namespace E ns w) = Inr ()) \<and>
   (\<forall>w1. ensure_k8s E w = (Inr (), w1) \<longrightarrow>
      api_create_namespaced_pod E (clock w1) ns
        \<lparr>manifest_name = n @ ''-pod'', manifest_image = img, manifest_cpu = c,
         manifest_memory = m, manifest_storage = show_int s @ ''Gi''\<rparr> = Some (ApiException 409) \<longrightarrow>
      fst (create_pod E ns n img c m s w) =
        (if within_str_digits s then Inr () else Inl ValueError))"
  using deploy_conflict [of E spec w] get_pod_status_frame [of E "spec_name spec" "spec_name spec" w]
    create_namespace_conflict [of E w _ ns] create_pod_conflict [of E w _ ns n img c m s]
  by blast

lemma get_pod_status_running:
  "get_pod_status running_env ''alice'' ''alice'' fresh_world =
     (Inr ''Running'', fresh_world\<lparr>clock := 2, k8s_v1 := True\<rparr>)"
  by (simp add: get_pod_status_def run_defs running_env_def quiet_env_def fresh_world_def)

lemma ensure_k8s_conflict_env:
  "ensure_k8s conflict_env fresh_world = (Inr (), fresh_world\<lparr>clock := 1, k8s_v1 := True\<rparr>)"
  by (rule ensure_k8s_fresh) (simp add: conflict_env_def quiet_env_def)

theorem conflict_rejected_and_create_idempotent_witness:
  "deploy running_env alice fresh_world =
     (Inl (HTTPException 409 (Pod_exists ''Running'')), fresh_world\<lparr>clock := 2, k8s_v1 := True\<rparr>) \<and>
   fst (create_namespace conflict_env ''alice'' fresh_world) = Inr () \<and>
   fst (create_pod conflict_env ''alice'' ''alice'' ''student-web:latest'' ''500m'' ''512Mi'' 1 fresh_world) = Inr ()"
proof -
  note t = conflict_rejected_and_create_idempotent [of running_env alice fresh_world]
  note u = conflict_rejected_and_create_idempotent [of conflict_env alice fresh_world "''alice''"
      "''alice''" "''student-web:latest''" "''500m''" "''512Mi''" 1]
  have n: "spec_name alice = ''alice''"
    by (simp add: alice_def)
  have a: "deploy running_env alice fresh_world =
     (Inl (HTTPException 409 (Pod_exists ''Running'')), fresh_world\<lparr>clock := 2, k8s_v1 := True\<rparr>)"
    using t get_pod_status_running by (simp add: n)
  have c1: "api_create_namespace conflict_env (clock (fresh_world\<lparr>clock := 1, k8s_v1 := True\<rparr>)) ''alice''
      = Some (ApiException 409)"
    by (simp add: conflict_env_def)
  have c2: "api_create_namespaced_pod conflict_env (clock (fresh_world\<lparr>clock := 1, k8s_v1 := True\<rparr>)) ''alice''
        \<lparr>manifest_name = ''alice'' @ ''-pod'', manifest_image = ''student-web:latest'',
         manifest_cpu = ''500m'', manifest_memory = ''512Mi'',
         manifest_storage = show_int 1 @ ''Gi''\<rparr> = Some (ApiException 409)"
    by (simp add: conflict_env_def)
  have b: "fst (create_namespace conflict_env ''alice'' fresh_world) = Inr ()"
    using u ensure_k8s_conflict_env c1 by blast
  have d: "within_str_digits 1"
    by (rule small_within_str_digits) simp
  have "fst (create_pod conflict_env ''alice'' ''alice'' ''student-web:latest'' ''500m'' ''512Mi'' 1 fresh_world) =
      (if within_str_digits 1 then Inr () else Inl ValueError)"
    using u ensure_k8s_conflict_env c2 by blast
  with d have c: "fst (create_pod conflict_env ''alice'' ''alice'' ''student-web:latest'' ''500m'' ''512Mi'' 1 fresh_world) = Inr ()"
    by simp
  from a b c show ?thesis by blast
qed

lemma deploy_over_existing_resources:
  "fst (deploy conflict_env alice fresh_world) =
     Inr \<lparr>resp_status = ''deploying'', resp_namespace = ''alice'', resp_pod = ''alice-pod'',
          resp_image = ''student-web:latest'',
          resp_requested = [(''cpu'', ''500m''), (''memory'', ''512Mi''), (''storage'', ''1Gi'')],
          resp_phase = ''Not Found''\<rparr> \<and>
   map status (students (snd (deploy conflict_env alice fresh_world))) = [Some ''deployed'']"
  by (simp add: deploy_def provision_def get_pod_status_def create_namespace_def create_pod_def
      save_or_update_student_def update_student_status_def run_defs upsert_def set_status_def
      to_persisted_doc_alice to_k8s_resources_alice str_int_small show_int_1 dict_get_def
      conflict_env_def quiet_env_def fresh_world_def alice_def [THEN arg_cong, of spec_name]
      alice_def [THEN arg_cong, of spec_storage])

subsection \<open>Reconciliation when the cluster cannot be reached\<close>















subsection \<open>Port-forward sessions\<close>








lemma pf_start_existing:
  assumes "strip name \<noteq> []" and "files w (pidfile name) = Some (Json j)"
    and "fs_fault E (clock w) = None"
    and "truthy j" and "json_item j ''port'' = Inr port"
  shows "pf_start E name tp lp w =
     (Inr \<lparr>pf_status = ''already-forwarding'', pf_name = name, local_port = port, url_port = port\<rparr>,
      w\<lparr>clock := Suc (clock w)\<rparr>)"
  using assms
  by (simp add: pf_start_def load_pf_def already_forwarding_def bind_io_def lift_io_def return_io_def)








text \<open>
  The registry file belongs to the path, not to the name: \<open>./alice\<close> has the file of
  \<open>alice\<close>, and a start for it finds the session of \<open>alice\<close>.
\<close>

lemma pidfile_alice: "pidfile ''alice'' = (''/'', [''tmp'', ''student_pf'', ''alice.json''])"
  by code_simp

lemma pidfile_dot_slash: "pidfile ''./alice'' = pidfile ''alice''"
  by code_simp

lemma pidfile_absolute: "pidfile ''/etc/alice'' = (''/'', [''etc'', ''alice.json''])"
  by code_simp

lemma start_by_other_name:
  "fst (pf_start quiet_env ''./alice'' 8000 None session_world) =
     Inr \<lparr>pf_status = ''already-forwarding'', pf_name = ''./alice'', local_port = JInt 8001,
           url_port = JInt 8001\<rparr>"
proof -
  have n: "strip ''./alice'' \<noteq> []"
    by code_simp
  have f: "files session_world (pidfile ''./alice'') =
      Some (Json (JDict [(''name'', JStr ''alice''), (''pid'', JInt 4242), (''port'', JInt 8001)]))"
    by (simp add: pidfile_dot_slash session_world_def)
  have q: "fs_fault quiet_env (clock session_world) = None"
    by (simp add: quiet_env_def)
  from pf_start_existing [OF n f q, of "JInt 8001" 8000 None] show ?thesis
    by (simp add: truthy_def json_item_def)
qed







end
